theory Spec2Isabelle
  imports Main "HOL-Library.Word"
begin

section \<open>JavaScript strings and values\<close>

text \<open>
  A JavaScript string is a sequence of UTF-16 code units; \<open>length\<close>, \<open>trim\<close>,
  \<open>split\<close>, \<open>startsWith\<close> and \<open>slice\<close> all count code units. \<open>js\<close> embeds an
  ASCII literal of the source.
\<close>

type_synonym code_unit = "16 word"
type_synonym jsstring = "code_unit list"

definition js :: "string \<Rightarrow> jsstring" where
  "js cs = map of_char cs"

text \<open>
  The values a field of a parsed event can hold. \<open>JOther t r\<close> stands for a number,
  an array or an object: \<open>t\<close> is its truthiness (false only for the number zero) and
  \<open>r\<close> the string that JavaScript's string conversion gives for it.
\<close>

datatype js_value =
    JUndefined
  | JNull
  | JBool bool
  | JStr jsstring
  | JOther bool jsstring

fun truthy :: "js_value \<Rightarrow> bool" where
  "truthy JUndefined = False"
| "truthy JNull = False"
| "truthy (JBool b) = b"
| "truthy (JStr s) = (s \<noteq> [])"
| "truthy (JOther t r) = t"

fun ToString :: "js_value \<Rightarrow> jsstring" where
  "ToString JUndefined = js ''undefined''"
| "ToString JNull = js ''null''"
| "ToString (JBool b) = (if b then js ''true'' else js ''false'')"
| "ToString (JStr s) = s"
| "ToString (JOther t r) = r"

text \<open>Decimal rendering of a non-negative integer (\<open>Number.prototype.toString\<close>).\<close>

fun digits :: "nat \<Rightarrow> jsstring" where
  "digits n = (if n < 10 then [of_nat (48 + n)]
               else digits (n div 10) @ [of_nat (48 + n mod 10)])"

text \<open>
  \<open>String.prototype.trim\<close> removes the code units of WhiteSpace and LineTerminator
  from both ends.
\<close>

definition is_whitespace :: "code_unit \<Rightarrow> bool" where
  "is_whitespace c =
     (c \<in> {0x9, 0xA, 0xB, 0xC, 0xD, 0x20, 0xA0, 0x1680, 0x2028, 0x2029, 0x202F, 0x205F,
            0x3000, 0xFEFF}
      \<or> (0x2000 \<le> c \<and> c \<le> 0x200A))"

definition trim :: "jsstring \<Rightarrow> jsstring" where
  "trim s = rev (dropWhile is_whitespace (rev (dropWhile is_whitespace s)))"

text \<open>\<open>s.substring(a, b)\<close> for \<open>0 \<le> a \<le> b\<close>: the code units from index \<open>a\<close> up to
  \<open>b\<close> (exclusive), cut at the end of the string.\<close>

definition substring :: "nat \<Rightarrow> nat \<Rightarrow> jsstring \<Rightarrow> jsstring" where
  "substring a b s = take (b - a) (drop a s)"

definition startsWith :: "jsstring \<Rightarrow> jsstring \<Rightarrow> bool" where
  "startsWith s p = (take (length p) s = p)"

text \<open>
  \<open>s.split('\n')\<close>: the segments between the newline code units, in order. The result
  always has at least one segment; the last one is what follows the last newline.
\<close>

fun split_nl :: "jsstring \<Rightarrow> jsstring list" where
  "split_nl [] = [[]]"
| "split_nl (c # cs) =
     (if c = 0xA then [] # split_nl cs
      else (case split_nl cs of [] \<Rightarrow> [[c]] | l # ls \<Rightarrow> (c # l) # ls))"

text \<open>
  A call of a JavaScript function either returns or throws; in both cases the
  mutations it has made so far persist, so both outcomes carry the state.
\<close>

datatype js_error = TypeError | NotFoundError | Error jsstring

datatype 'a outcome = Return 'a | Throw js_error 'a

text \<open>A promise of the platform (\<open>fetch\<close>, \<open>reader.read\<close>) is fulfilled with a
  value or rejected with an error message.\<close>

datatype 'a promise = Fulfilled 'a | Rejected jsstring

section \<open>The page\<close>

text \<open>
  The element \<open>#chat-messages\<close> holds the transcript. Its children are committed
  message bubbles (\<open>createMessageElement\<close>), streaming-response elements
  (\<open>startStreaming\<close>) and the static markup that \<open>innerHTML\<close> assignments put there.
  A streaming-response element is mutable and is referred to from the
  \<open>StreamingManager\<close> also after it has left the document, so these elements live in a
  store and the children list holds their addresses.

  A message bubble is modelled by its sender and its raw content; the HTML
  escaping and the time stamp that \<open>createMessageElement\<close> adds are rendering only.
\<close>

datatype role = RoleUser | RoleAssistant | RoleError

record streaming_el =
  thinking_hidden :: bool
  streaming_text_hidden :: bool
  typing_hidden :: bool
  typing_display_none :: bool
  textContent :: jsstring

datatype markup =
    LoadingIndicator jsstring
  | WelcomeMessage
  | AuthenticationError
  | ServerHtml jsstring

datatype child = Message role jsstring | Stream nat | Markup markup

datatype entry = Committed role jsstring | Pending streaming_el | Static markup

datatype request =
    ClearSession
  | GetHistory jsstring
  | Send jsstring "jsstring option"

datatype log = ConsoleLog jsstring | ConsoleWarn jsstring | ConsoleError jsstring

datatype timer = RetryLoadInitialHistory

text \<open>
  One record for the state of the page: the DOM of \<open>#chat-messages\<close> with its scroll
  geometry, the fields of \<open>StreamingManager\<close>, of \<open>SessionManager\<close> and the part of
  \<open>UIManager\<close> that the send path touches, the entry of \<open>localStorage\<close> under
  \<open>healthmate_chat_session_id\<close>, and what the page did to its environment (requests
  issued, console output, timers set, navigation).

  \<open>layout\<close> is the browser's layout of the transcript: the content height
  (\<open>scrollHeight\<close>) that a given list of rendered entries has. It never changes.
\<close>

record page =
  children :: "child list"
  store :: "nat \<Rightarrow> streaming_el"
  next_addr :: nat
  layout :: "entry list \<Rightarrow> int"
  scrollTop :: int
  clientHeight :: int
  streamingResponse :: "nat option"
  streamingText :: "nat option"
  typingIndicator :: "nat option"
  thinkingIndicator :: "nat option"
  isStreaming :: bool
  sessionId :: "jsstring option"
  isNewSessionJustCreated :: bool
  localStorage :: "jsstring option"
  input_value :: jsstring
  input_disabled :: bool
  send_disabled :: bool
  requests :: "request list"
  console :: "log list"
  timers :: "timer list"
  location_login :: bool

fun render :: "(nat \<Rightarrow> streaming_el) \<Rightarrow> child \<Rightarrow> entry" where
  "render st (Message r c) = Committed r c"
| "render st (Stream a) = Pending (st a)"
| "render st (Markup m) = Static m"

definition transcript :: "page \<Rightarrow> entry list" where
  "transcript s = map (render (store s)) (children s)"

definition scrollHeight :: "page \<Rightarrow> int" where
  "scrollHeight s = layout s (transcript s)"

text \<open>
  Assigning \<open>scrollTop\<close> stores the value clamped to the scrollable range
  \<open>0 .. scrollHeight - clientHeight\<close>, as the DOM does.
\<close>

definition maxScroll :: "page \<Rightarrow> int" where
  "maxScroll s = max 0 (scrollHeight s - clientHeight s)"

definition set_scrollTop :: "int \<Rightarrow> page \<Rightarrow> page" where
  "set_scrollTop v s = s\<lparr>scrollTop := min (max 0 v) (maxScroll s)\<rparr>"

definition appendChild :: "child \<Rightarrow> page \<Rightarrow> page" where
  "appendChild c s = s\<lparr>children := children s @ [c]\<rparr>"

fun replace_first :: "child \<Rightarrow> child \<Rightarrow> child list \<Rightarrow> child list" where
  "replace_first new old [] = []"
| "replace_first new old (c # cs) =
     (if c = old then new # cs else c # replace_first new old cs)"

text \<open>\<open>replaceChild\<close> throws NotFoundError when the old node is not a child.\<close>

definition replaceChild :: "child \<Rightarrow> child \<Rightarrow> page \<Rightarrow> page outcome" where
  "replaceChild new old s =
     (if old \<in> set (children s)
      then Return (s\<lparr>children := replace_first new old (children s)\<rparr>)
      else Throw NotFoundError s)"

definition set_innerHTML :: "child list \<Rightarrow> page \<Rightarrow> page" where
  "set_innerHTML cs s = s\<lparr>children := cs\<rparr>"

definition update_el :: "nat \<Rightarrow> (streaming_el \<Rightarrow> streaming_el) \<Rightarrow> page \<Rightarrow> page" where
  "update_el a f s = s\<lparr>store := (store s)(a := f (store s a))\<rparr>"

text \<open>
  \<open>document.getElementById\<close> for the ids \<open>streaming-text\<close>, \<open>typing-indicator\<close> and
  \<open>thinking-indicator\<close>. Only the markup of \<open>startStreaming\<close> carries these ids, so
  the lookup finds the sub-element of the first streaming-response element in
  document order, or nothing. A reference to such a sub-element is modelled by the
  address of the streaming-response element that contains it.
\<close>

fun first_stream :: "child list \<Rightarrow> nat option" where
  "first_stream [] = None"
| "first_stream (Stream a # cs) = Some a"
| "first_stream (Message r c # cs) = first_stream cs"
| "first_stream (Markup m # cs) = first_stream cs"

definition getElementById :: "page \<Rightarrow> nat option" where
  "getElementById s = first_stream (children s)"

definition console_log :: "log \<Rightarrow> page \<Rightarrow> page" where
  "console_log l s = s\<lparr>console := console s @ [l]\<rparr>"

section \<open>MessageManager\<close>

definition scrollToBottom :: "page \<Rightarrow> page" where
  "scrollToBottom s = set_scrollTop (scrollHeight s) s"

definition smartScrollToBottom :: "page \<Rightarrow> page" where
  "smartScrollToBottom s =
     (let threshold = 70;
          isNearBottom = (scrollHeight s - scrollTop s - clientHeight s \<le> threshold)
      in if isNearBottom then scrollToBottom s else s)"

definition createMessageElement :: "jsstring \<Rightarrow> role \<Rightarrow> child" where
  "createMessageElement content sender = Message sender content"

definition addUserMessage :: "jsstring \<Rightarrow> page \<Rightarrow> page" where
  "addUserMessage content s =
     scrollToBottom (appendChild (createMessageElement content RoleUser) s)"

definition addAssistantMessage :: "jsstring \<Rightarrow> page \<Rightarrow> page" where
  "addAssistantMessage content s =
     scrollToBottom (appendChild (createMessageElement content RoleAssistant) s)"

definition addErrorMessage :: "jsstring \<Rightarrow> page \<Rightarrow> page" where
  "addErrorMessage content s =
     scrollToBottom (appendChild (createMessageElement content RoleError) s)"

definition clearMessages :: "page \<Rightarrow> page" where
  "clearMessages s = set_innerHTML [] s"

definition showLoadingIndicator :: "jsstring \<Rightarrow> page \<Rightarrow> page" where
  "showLoadingIndicator message s = set_innerHTML [Markup (LoadingIndicator message)] s"

definition showWelcomeMessage :: "page \<Rightarrow> page" where
  "showWelcomeMessage s = scrollToBottom (set_innerHTML [Markup WelcomeMessage] s)"

definition showAuthenticationError :: "page \<Rightarrow> page" where
  "showAuthenticationError s = set_innerHTML [Markup AuthenticationError] s"

definition setContent :: "jsstring \<Rightarrow> page \<Rightarrow> page" where
  "setContent html s = scrollToBottom (set_innerHTML [Markup (ServerHtml html)] s)"

section \<open>StreamingManager\<close>

text \<open>
  The manager as \<open>ChatInterface\<close> wires it: its constructor replaces \<open>onError\<close> by
  \<open>MessageManager.addErrorMessage\<close>, and \<open>createMessageElement\<close>, \<open>scrollToBottom\<close>
  and \<open>smartScrollToBottom\<close> by the \<open>MessageManager\<close>'s methods, which have the same
  bodies and act on the same container.
\<close>

definition onError :: "jsstring \<Rightarrow> page \<Rightarrow> page" where
  "onError message s = addErrorMessage message s"

text \<open>The markup of a new streaming response: the thinking indicator is shown, the
  streaming text and the typing indicator carry the class \<open>hidden\<close>.\<close>

definition new_streaming_el :: streaming_el where
  "new_streaming_el =
     \<lparr>thinking_hidden = False, streaming_text_hidden = True, typing_hidden = True,
      typing_display_none = False, textContent = []\<rparr>"

definition startStreaming :: "page \<Rightarrow> page" where
  "startStreaming s =
     (let s1 = s\<lparr>isStreaming := True\<rparr>;
          a = next_addr s1;
          s2 = s1\<lparr>store := (store s1)(a := new_streaming_el), next_addr := Suc a,
                  streamingResponse := Some a\<rparr>;
          s3 = appendChild (Stream a) s2;
          s4 = s3\<lparr>streamingText := getElementById s3\<rparr>;
          s5 = s4\<lparr>typingIndicator := getElementById s4\<rparr>;
          s6 = s5\<lparr>thinkingIndicator := getElementById s5\<rparr>
      in scrollToBottom s6)"

definition completeStreaming :: "page \<Rightarrow> page outcome" where
  "completeStreaming s =
     (let s1 = s\<lparr>isStreaming := False\<rparr>;
          s2 = (case typingIndicator s1 of
                  None \<Rightarrow> s1
                | Some ty \<Rightarrow> update_el ty (\<lambda>e. e\<lparr>typing_display_none := True\<rparr>) s1);
          finalText = (case streamingText s2 of
                         None \<Rightarrow> []
                       | Some tx \<Rightarrow> textContent (store s2 tx));
          cleanup = (\<lambda>s3. scrollToBottom
                       (s3\<lparr>streamingResponse := None, streamingText := None,
                           typingIndicator := None, thinkingIndicator := None\<rparr>))
      in case streamingResponse s2 of
           None \<Rightarrow> Return (cleanup s2)
         | Some sr \<Rightarrow>
             if finalText \<noteq> [] then
               (case replaceChild (createMessageElement finalText RoleAssistant) (Stream sr) s2 of
                  Return s3 \<Rightarrow> Return (cleanup s3)
                | Throw e s3 \<Rightarrow> Throw e s3)
             else Return (cleanup s2))"

text \<open>Lines 43-44 of the chunk case: append the text, then scroll if near the bottom.
  Reading \<open>textContent\<close> of a null reference throws.\<close>

definition append_chunk_text :: "js_value \<Rightarrow> page \<Rightarrow> page outcome" where
  "append_chunk_text t s =
     (case streamingText s of
        None \<Rightarrow> Throw TypeError s
      | Some tx \<Rightarrow>
          Return (smartScrollToBottom
                    (update_el tx (\<lambda>e. e\<lparr>textContent := textContent e @ ToString t\<rparr>) s)))"

text \<open>Lines 37-41 of the chunk case: on the first chunk the thinking indicator gives
  way to the streaming text and the typing indicator.\<close>

definition show_streaming_text :: "page \<Rightarrow> page outcome" where
  "show_streaming_text s =
     (case thinkingIndicator s of
        None \<Rightarrow> Return s
      | Some th \<Rightarrow>
          if \<not> thinking_hidden (store s th) then
            (let s1 = update_el th (\<lambda>e. e\<lparr>thinking_hidden := True\<rparr>) s
             in case streamingText s1 of
                  None \<Rightarrow> Throw TypeError s1
                | Some tx \<Rightarrow>
                    (let s2 = update_el tx (\<lambda>e. e\<lparr>streaming_text_hidden := False\<rparr>) s1
                     in case typingIndicator s2 of
                          None \<Rightarrow> Throw TypeError s2
                        | Some ty \<Rightarrow>
                            Return (update_el ty (\<lambda>e. e\<lparr>typing_hidden := False\<rparr>) s2)))
          else Return s)"

definition handle_chunk :: "js_value \<Rightarrow> page \<Rightarrow> page outcome" where
  "handle_chunk t s =
     (if truthy t then
        (let s1 = (if \<not> isStreaming s then startStreaming s else s)
         in case show_streaming_text s1 of
              Return s2 \<Rightarrow> append_chunk_text t s2
            | Throw e s2 \<Rightarrow> Throw e s2)
      else Return s)"

text \<open>
  The parsed payload of an event line: \<open>null\<close>, or a value whose properties
  \<open>event_type\<close>, \<open>text\<close> and \<open>error\<close> are read (\<open>JUndefined\<close> when absent, as for every
  property of a number, string, boolean or array payload).
\<close>

datatype event_data = EventNull | EventObj js_value js_value js_value

fun handleStreamingEvent :: "event_data \<Rightarrow> page \<Rightarrow> page outcome" where
  "handleStreamingEvent EventNull s = Throw TypeError s"
| "handleStreamingEvent (EventObj event_type t err) s =
     (if event_type = JStr (js ''connected'') then Return s
      else if event_type = JStr (js ''user_message'') then Return s
      else if event_type = JStr (js ''ai_thinking'') then Return s
      else if event_type = JStr (js ''chunk'') then handle_chunk t s
      else if event_type = JStr (js ''ai_message_complete'') then Return s
      else if event_type = JStr (js ''complete'') then completeStreaming s
      else if event_type = JStr (js ''error'') then
        completeStreaming
          (onError ([0x30A8, 0x30E9, 0x30FC, 0x3A, 0x20] @ ToString err)
             (console_log (ConsoleError (js ''Streaming error:'')) s))
      else if event_type = JStr (js ''disconnected'') then Return s
      else Return (console_log (ConsoleWarn (js ''Unknown streaming event type:'')) s))"

text \<open>The state the constructors leave: no manager field set, the container empty.\<close>

definition init_page :: "(entry list \<Rightarrow> int) \<Rightarrow> int \<Rightarrow> page" where
  "init_page lay h =
     \<lparr>children = [], store = (\<lambda>a. new_streaming_el), next_addr = 0, layout = lay,
      scrollTop = 0, clientHeight = h,
      streamingResponse = None, streamingText = None, typingIndicator = None,
      thinkingIndicator = None, isStreaming = False,
      sessionId = None, isNewSessionJustCreated = False, localStorage = None,
      input_value = [], input_disabled = False, send_disabled = False,
      requests = [], console = [], timers = [], location_login = False\<rparr>"

section \<open>SessionManager\<close>

text \<open>
  The environment of \<open>getOrCreateSessionId\<close>: \<open>now\<close> is the value of \<open>Date.now()\<close>
  and \<open>random k\<close> is the string \<open>Math.random().toString(36)\<close> of the \<open>k\<close>-th call of
  \<open>Math.random\<close> (such a string starts with \<open>0.\<close>; it is just \<open>0\<close> when the number drawn
  is zero). The padding loop draws until the id is long enough, so it may run
  forever: not returning is the value \<open>None\<close>.
\<close>

partial_function (option) pad_session_id ::
    "(nat \<Rightarrow> jsstring) \<Rightarrow> nat \<Rightarrow> jsstring \<Rightarrow> jsstring option" where
  "pad_session_id random k sid =
     (if length sid < 33
      then pad_session_id random (Suc k) (sid @ substring 2 3 (random k))
      else Some sid)"

definition generate_session_id :: "nat \<Rightarrow> (nat \<Rightarrow> jsstring) \<Rightarrow> jsstring option" where
  "generate_session_id now random =
     (let timestamp = digits now;
          randomPart1 = substring 2 17 (random 0);
          randomPart2 = substring 2 17 (random 1);
          sid = js ''healthmate-chat-'' @ timestamp @ js ''-'' @ randomPart1
                  @ js ''-'' @ randomPart2
      in pad_session_id random 2 sid)"

definition getOrCreateSessionId ::
    "nat \<Rightarrow> (nat \<Rightarrow> jsstring) \<Rightarrow> page \<Rightarrow> (jsstring \<times> page) option" where
  "getOrCreateSessionId now random s =
     (let stored = localStorage s
      in if stored = None \<or> stored = Some [] then
           (case generate_session_id now random of
              None \<Rightarrow> None
            | Some sid \<Rightarrow> Some (sid, s\<lparr>localStorage := Some sid\<rparr>))
         else Some (the stored, s))"

definition initialize ::
    "nat \<Rightarrow> (nat \<Rightarrow> jsstring) \<Rightarrow> page \<Rightarrow> (jsstring \<times> page) option" where
  "initialize now random s =
     (case getOrCreateSessionId now random s of
        None \<Rightarrow> None
      | Some (sid, s1) \<Rightarrow>
          Some (sid, console_log (ConsoleLog (js ''Initialized session ID:''))
                       (s1\<lparr>sessionId := Some sid\<rparr>)))"

text \<open>
  \<open>resetChatSession\<close>: the argument is how the \<open>fetch\<close> of
  \<open>/api/chat/clear-session\<close> settles. The response itself is never looked at; a
  rejection is caught by the \<open>try\<close> around the \<open>fetch\<close>. The function has no path that
  throws.
\<close>

definition resetChatSession :: "'r promise \<Rightarrow> page \<Rightarrow> page" where
  "resetChatSession fetch_result s =
     (let s1 = s\<lparr>localStorage := None\<rparr>;
          s2 = s1\<lparr>requests := requests s1 @ [ClearSession]\<rparr>
      in case fetch_result of
           Fulfilled r \<Rightarrow> s2
         | Rejected e \<Rightarrow>
             console_log (ConsoleWarn (js ''Failed to clear session on server:'')) s2)"

definition startNewSession ::
    "'r promise \<Rightarrow> nat \<Rightarrow> (nat \<Rightarrow> jsstring) \<Rightarrow> page \<Rightarrow> (jsstring \<times> page) option" where
  "startNewSession fetch_result now random s =
     (let s1 = resetChatSession fetch_result s
      in case getOrCreateSessionId now random s1 of
           None \<Rightarrow> None
         | Some (sid, s2) \<Rightarrow>
             Some (sid, s2\<lparr>sessionId := Some sid, isNewSessionJustCreated := True\<rparr>))"

definition getCurrentSessionId :: "page \<Rightarrow> jsstring option" where
  "getCurrentSessionId s = sessionId s"

definition isNewSession :: "page \<Rightarrow> bool" where
  "isNewSession s = isNewSessionJustCreated s"

definition clearNewSessionFlag :: "page \<Rightarrow> page" where
  "clearNewSessionFlag s = s\<lparr>isNewSessionJustCreated := False\<rparr>"

section \<open>UIManager\<close>

text \<open>Of the input control only its text and the two \<open>disabled\<close> flags are modelled;
  CSS classes, the character counter, the textarea height and focus are display only.\<close>

definition getCurrentMessage :: "page \<Rightarrow> jsstring" where
  "getCurrentMessage s = trim (input_value s)"

definition setInputDisabled :: "bool \<Rightarrow> page \<Rightarrow> page" where
  "setInputDisabled disabled s = s\<lparr>input_disabled := disabled, send_disabled := disabled\<rparr>"

definition clearInputAndMaintainFocus :: "page \<Rightarrow> page" where
  "clearInputAndMaintainFocus s = s\<lparr>input_value := []\<rparr>"

section \<open>HistoryManager\<close>

text \<open>
  A response of \<open>fetch\<close>: its status line, how \<open>response.text()\<close> settles (history
  path), and what the body's reader delivers (send path): the byte fragments of the
  successive reads, then either \<open>done\<close> (\<open>read_failure = None\<close>) or a rejected read.
  \<open>body_present\<close> is false when \<open>response.body\<close> is \<open>null\<close>, as it is for a response
  without a body (status 204 or 205). A body that never ends is not modelled.
\<close>

type_synonym byte = "8 word"

record response =
  status :: nat
  statusText :: jsstring
  body_text :: "jsstring promise"
  body_present :: bool
  fragments :: "byte list list"
  read_failure :: "jsstring option"

definition ok :: "response \<Rightarrow> bool" where
  "ok r = (200 \<le> status r \<and> status r \<le> 299)"

definition issue :: "request \<Rightarrow> page \<Rightarrow> page" where
  "issue r s = s\<lparr>requests := requests s @ [r]\<rparr>"

text \<open>\<open>HistoryManager.showWelcomeMessage\<close>; the argument is how its \<open>fetch\<close> settles.\<close>

definition history_showWelcomeMessage :: "response promise \<Rightarrow> page \<Rightarrow> page" where
  "history_showWelcomeMessage fetch_result s =
     (let sid = (case getCurrentSessionId s of None \<Rightarrow> js ''null'' | Some i \<Rightarrow> i);
          s1 = console_log (ConsoleLog (js ''Showing welcome message for session:'')) s;
          s2 = clearMessages s1;
          s3 = console_log (ConsoleLog (js ''Attempting to load empty history from server...'')) s2;
          s4 = issue (GetHistory sid) s3;
          fallback = (\<lambda>s5. showWelcomeMessage
                        (console_log (ConsoleError (js ''Failed to load empty history from server:'')) s5))
      in case fetch_result of
           Rejected e \<Rightarrow> fallback s4
         | Fulfilled r \<Rightarrow>
             if ok r then
               (case body_text r of
                  Rejected e \<Rightarrow> fallback s4
                | Fulfilled html \<Rightarrow>
                    console_log (ConsoleLog (js ''Empty history loaded from server''))
                      (setContent html s4))
             else if status r = 401 then
               (console_log (ConsoleLog (js ''Authentication error, redirecting to login'')) s4)
                 \<lparr>location_login := True\<rparr>
             else fallback s4)"

text \<open>\<open>loadInitialHistory\<close>; the arguments are how its own \<open>fetch\<close> and the one of the
  fallback settle. The retry after 500 ms is recorded as a timer.\<close>

definition loadInitialHistory :: "response promise \<Rightarrow> response promise \<Rightarrow> page \<Rightarrow> page" where
  "loadInitialHistory fetch_result fallback_result s =
     (if isNewSession s then s
      else
        (let sid = getCurrentSessionId s
         in if sid = None \<or> sid = Some [] then
              (console_log (ConsoleLog (js ''Waiting for session ID to be initialized...'')) s)
                \<lparr>timers := timers s @ [RetryLoadInitialHistory]\<rparr>
            else
              (let s1 = showLoadingIndicator
                          [0x30C1, 0x30E3, 0x30C3, 0x30C8, 0x5C65, 0x6B74, 0x3092, 0x8AAD,
                           0x307F, 0x8FBC, 0x307F, 0x4E2D, 0x2E, 0x2E, 0x2E] s;
                   s2 = issue (GetHistory (the sid)) s1;
                   recover = (\<lambda>s3. history_showWelcomeMessage fallback_result
                                (console_log (ConsoleError (js ''Failed to load initial chat history:'')) s3))
               in case fetch_result of
                    Rejected e \<Rightarrow> recover s2
                  | Fulfilled r \<Rightarrow>
                      if ok r then
                        (case body_text r of
                           Rejected e \<Rightarrow> recover s2
                         | Fulfilled html \<Rightarrow> setContent html s2)
                      else if status r = 401 then
                        showAuthenticationError
                          (console_log (ConsoleError
                             (js ''Authentication failed - user not logged in or session expired'')) s2)
                      else
                        (case body_text r of
                           Rejected e \<Rightarrow> recover s2
                         | Fulfilled errorText \<Rightarrow>
                             recover (console_log (ConsoleError (js ''HTTP error response:'')) s2)))))"

section \<open>ChatInterface\<close>

text \<open>
  The platform functions of the send path. \<open>JSON_parse\<close> gives \<open>None\<close> where
  \<open>JSON.parse\<close> throws a SyntaxError. A \<open>TextDecoder\<close> used with \<open>stream: true\<close>
  consumes its input byte by byte, keeping the bytes of an unfinished character in
  its state: \<open>decoder_step\<close> is that step (the code units a byte completes, and the
  next state) and \<open>decoder_init\<close> the state of a new decoder.
  \<open>getReader_null_message\<close> is the message of the TypeError that the engine throws
  for \<open>response.body.getReader()\<close> when \<open>response.body\<close> is \<open>null\<close>.
\<close>

record 'd platform =
  JSON_parse :: "jsstring \<Rightarrow> event_data option"
  decoder_step :: "'d \<Rightarrow> byte \<Rightarrow> jsstring \<times> 'd"
  decoder_init :: 'd
  getReader_null_message :: jsstring

fun decode :: "('d \<Rightarrow> byte \<Rightarrow> jsstring \<times> 'd) \<Rightarrow> 'd \<Rightarrow> byte list \<Rightarrow> jsstring \<times> 'd" where
  "decode step d [] = ([], d)"
| "decode step d (b # bs) =
     (case step d b of
        (out, d1) \<Rightarrow> (case decode step d1 bs of (rest, d2) \<Rightarrow> (out @ rest, d2)))"

text \<open>
  The read loop of \<open>handleFormSubmit\<close> (lines 140-165), with the body of its
  \<open>for\<close> loop as the parameter \<open>on_line\<close>. When the reader reports \<open>done\<close> the loop is
  left and whatever the buffer still holds is dropped.
\<close>

fun read_loop ::
    "(jsstring \<Rightarrow> 'a \<Rightarrow> 'a) \<Rightarrow> ('d \<Rightarrow> byte \<Rightarrow> jsstring \<times> 'd) \<Rightarrow> 'd \<Rightarrow> jsstring
       \<Rightarrow> byte list list \<Rightarrow> 'a \<Rightarrow> 'a" where
  "read_loop on_line step d buffer [] s = s"
| "read_loop on_line step d buffer (v # reads) s =
     (case decode step d v of
        (chunk, d1) \<Rightarrow>
          (let buffer1 = buffer @ chunk;
               lines = split_nl buffer1;
               buffer2 = (if lines = [] then [] else last lines)
           in read_loop on_line step d1 buffer2 reads (fold on_line (butlast lines) s)))"

text \<open>The body of the \<open>for\<close> loop (lines 156-163): an exception of \<open>JSON.parse\<close> or
  of \<open>handleStreamingEvent\<close> is caught and logged, and the loop goes on.\<close>

definition process_line :: "(jsstring \<Rightarrow> event_data option) \<Rightarrow> jsstring \<Rightarrow> page \<Rightarrow> page" where
  "process_line parse line s =
     (if startsWith line (js ''data: '') then
        (case parse (drop 6 line) of
           None \<Rightarrow> console_log (ConsoleError (js ''Error parsing SSE data:'')) s
         | Some eventData \<Rightarrow>
             (case handleStreamingEvent eventData s of
                Return s1 \<Rightarrow> s1
              | Throw e s1 \<Rightarrow> console_log (ConsoleError (js ''Error parsing SSE data:'')) s1))
      else s)"

text \<open>The same body, recording only the argument of each call of
  \<open>handleStreamingEvent\<close>.\<close>

definition record_event ::
    "(jsstring \<Rightarrow> event_data option) \<Rightarrow> jsstring \<Rightarrow> event_data list \<Rightarrow> event_data list" where
  "record_event parse line evs =
     (if startsWith line (js ''data: '') then
        (case parse (drop 6 line) of
           None \<Rightarrow> evs
         | Some eventData \<Rightarrow> evs @ [eventData])
      else evs)"

definition events_passed :: "'d platform \<Rightarrow> byte list list \<Rightarrow> event_data list" where
  "events_passed P reads =
     read_loop (record_event (JSON_parse P)) (decoder_step P) (decoder_init P) [] reads []"

text \<open>The \<open>catch\<close> block (lines 167-169) and the \<open>finally\<close> block (lines 170-177).\<close>

definition catch_send_error :: "jsstring \<Rightarrow> page \<Rightarrow> page" where
  "catch_send_error message s =
     addErrorMessage
       ([0x30E1, 0x30C3, 0x30BB, 0x30FC, 0x30B8, 0x9001, 0x4FE1, 0x30A8, 0x30E9, 0x30FC,
         0x3A, 0x20] @ message)
       (console_log (ConsoleError (js ''Message sending error:'')) s)"

definition getIsStreaming :: "page \<Rightarrow> bool" where
  "getIsStreaming s = isStreaming s"

definition finally_send :: "page \<Rightarrow> page outcome" where
  "finally_send s =
     (let s1 = setInputDisabled False s
      in if getIsStreaming s1 then completeStreaming s1 else Return s1)"

text \<open>
  \<open>handleFormSubmit\<close>; \<open>fetch_result\<close> is how the \<open>fetch\<close> of \<open>/api/chat/send\<close> settles.
  The request carries the message and the session id (when there is one) besides
  the constants \<open>timezone\<close>, \<open>language\<close> and \<open>stream\<close>. With an ok status and no
  body, \<open>response.body.getReader()\<close> throws before streaming is started, and the
  \<open>catch\<close> block reports the TypeError. A send is modelled as running to its end
  without another handler of the page in between.
\<close>

definition handleFormSubmit :: "'d platform \<Rightarrow> response promise \<Rightarrow> page \<Rightarrow> page outcome" where
  "handleFormSubmit P fetch_result s =
     (let messageText = getCurrentMessage s
      in if messageText = [] then Return s
         else
           (let s1 = setInputDisabled True s;
                s2 = addUserMessage messageText s1;
                s3 = clearInputAndMaintainFocus s2;
                sid = getCurrentSessionId s3;
                s4 = issue (Send messageText (if sid = Some [] then None else sid)) s3;
                s5 = (case fetch_result of
                        Rejected message \<Rightarrow> catch_send_error message s4
                      | Fulfilled r \<Rightarrow>
                          if \<not> ok r then
                            catch_send_error
                              (js ''HTTP '' @ digits (status r) @ js '': '' @ statusText r) s4
                          else if \<not> body_present r then
                            catch_send_error (getReader_null_message P) s4
                          else
                            (let s6 = read_loop (process_line (JSON_parse P)) (decoder_step P)
                                        (decoder_init P) [] (fragments r) (startStreaming s4)
                             in case read_failure r of
                                  None \<Rightarrow> s6
                                | Some message \<Rightarrow> catch_send_error message s6))
            in finally_send s5))"

section \<open>Concrete inputs\<close>

text \<open>
  The inputs at which the theorems below are instantiated. \<open>example_layout\<close>
  gives every entry of the transcript a height of 100 pixels; \<open>example_page\<close> is a
  page with a viewport of 100 pixels in which a send is in flight: the user's
  message has been appended and the streaming response started, as
  \<open>handleFormSubmit\<close> leaves it before the first read.
\<close>

definition example_layout :: "entry list \<Rightarrow> int" where
  "example_layout es = 100 * int (length es)"

definition example_page :: page where
  "example_page = startStreaming (addUserMessage (js ''hello'') (init_page example_layout 100))"

definition chunk_event :: "js_value \<Rightarrow> event_data" where
  "chunk_event t = EventObj (JStr (js ''chunk'')) t JUndefined"

definition complete_event :: event_data where
  "complete_event = EventObj (JStr (js ''complete'')) JUndefined JUndefined"

definition error_event :: "js_value \<Rightarrow> event_data" where
  "error_event e = EventObj (JStr (js ''error'')) JUndefined e"

text \<open>
  A platform for the examples. \<open>example_parse\<close> agrees with \<open>JSON.parse\<close> on every
  payload used below: the four objects it knows, and the word \<open>oops\<close>, which is not
  JSON. The decoder maps every byte to the code unit of the same number, as a UTF-8
  decoder does on ASCII. \<open>utf8\<close> gives the bytes of an ASCII literal.
\<close>

definition example_parse :: "jsstring \<Rightarrow> event_data option" where
  \<open>example_parse payload =
     (if payload = js ''{"event_type":"chunk","text":"hi"}''
        then Some (chunk_event (JStr (js ''hi'')))
      else if payload = js ''{"event_type":"chunk","text":" there"}''
        then Some (chunk_event (JStr (js '' there'')))
      else if payload = js ''{"event_type":"complete"}''
        then Some complete_event
      else if payload = js ''{"event_type":"error","error":"overloaded"}''
        then Some (error_event (JStr (js ''overloaded'')))
      else None)\<close>

definition example_platform :: "unit platform" where
  "example_platform =
     \<lparr>JSON_parse = example_parse, decoder_step = (\<lambda>d b. ([ucast b], d)), decoder_init = (),
      getReader_null_message = js ''Cannot read properties of null''\<rparr>"

definition utf8 :: "string \<Rightarrow> byte list" where
  "utf8 cs = map of_char cs"

text \<open>Runs of the example page: after the first chunk; after a chunk and \<open>complete\<close>;
  and after one more chunk that arrives when the stream has already completed.\<close>

definition example_streaming :: page where
  \<open>example_streaming =
     process_line example_parse (js ''data: {"event_type":"chunk","text":"hi"}'') example_page\<close>

definition example_settled :: page where
  \<open>example_settled =
     fold (process_line example_parse)
       [js ''data: {"event_type":"chunk","text":"hi"}'', js ''data: {"event_type":"complete"}'']
       example_page\<close>

definition example_restarted :: page where
  \<open>example_restarted =
     process_line example_parse (js ''data: {"event_type":"chunk","text":" there"}'') example_settled\<close>

text \<open>A page with four entries whose viewer has scrolled to the top: 300 pixels are
  hidden below the viewport.\<close>

definition example_scrolled_up :: page where
  "example_scrolled_up =
     (startStreaming (addUserMessage (js ''d'') (addAssistantMessage (js ''c'')
        (addUserMessage (js ''b'') (init_page example_layout 100)))))\<lparr>scrollTop := 0\<rparr>"

text \<open>A source of random strings (every draw is \<open>0.z\<close>), and a response of the
  history endpoint.\<close>

definition example_random :: "nat \<Rightarrow> jsstring" where
  "example_random k = js ''0.z''"

definition example_history_response :: response where
  "example_history_response =
     \<lparr>status = 200, statusText = js ''OK'', body_text = Fulfilled (js ''<div></div>''),
      body_present = True, fragments = [], read_failure = None\<rparr>"

text \<open>A response body of five lines, the last one without its newline: a chunk, a
  comment line, a line whose payload is not JSON, \<open>complete\<close>, and an unfinished
  line.\<close>

definition example_stream :: "byte list" where
  \<open>example_stream =
     utf8 ''data: {"event_type":"chunk","text":"hi"}'' @ [0xA]
     @ utf8 '': keep-alive'' @ [0xA]
     @ utf8 ''data: oops'' @ [0xA]
     @ utf8 ''data: {"event_type":"complete"}'' @ [0xA]
     @ utf8 ''data: {"event_type":"chunk","text":" there"}''\<close>

text \<open>
  A send: the user has typed \<open>hello\<close> between blanks on a fresh page. The first
  response streams one chunk and then its body fails; the second streams one chunk
  and then an \<open>error\<close> event. \<open>example_sent\<close> is the page when the read loop starts,
  \<open>example_failed_final\<close> and \<open>example_error_final\<close> are the pages the two sends end in.
\<close>

definition example_idle :: page where
  "example_idle = (init_page example_layout 100)\<lparr>input_value := js '' hello ''\<rparr>"

definition example_failed_response :: response where
  \<open>example_failed_response =
     \<lparr>status = 200, statusText = js ''OK'', body_text = Rejected [], body_present = True,
      fragments = [utf8 ''data: {"event_type":"chunk","text":"hi"}'' @ [0xA]],
      read_failure = Some (js ''network error'')\<rparr>\<close>

definition example_error_response :: response where
  \<open>example_error_response =
     \<lparr>status = 200, statusText = js ''OK'', body_text = Rejected [], body_present = True,
      fragments = [utf8 ''data: {"event_type":"chunk","text":"hi"}'' @ [0xA],
                   utf8 ''data: {"event_type":"error","error":"overloaded"}'' @ [0xA]],
      read_failure = None\<rparr>\<close>

definition example_sent :: page where
  "example_sent =
     startStreaming (issue (Send (js ''hello'') None)
       (clearInputAndMaintainFocus (addUserMessage (js ''hello'')
          (setInputDisabled True example_idle))))"

definition example_failed_final :: page where
  "example_failed_final =
     example_sent
       \<lparr>children := [Message RoleUser (js ''hello''), Message RoleAssistant (js ''hi''),
                     Message RoleError
                       ([0x30E1, 0x30C3, 0x30BB, 0x30FC, 0x30B8, 0x9001, 0x4FE1, 0x30A8,
                         0x30E9, 0x30FC, 0x3A, 0x20] @ js ''network error'')],
        store := (\<lambda>a. new_streaming_el)
          (0 := \<lparr>thinking_hidden = True, streaming_text_hidden = False, typing_hidden = False,
                 typing_display_none = True, textContent = js ''hi''\<rparr>),
        scrollTop := 200,
        streamingResponse := None, streamingText := None, typingIndicator := None,
        thinkingIndicator := None, isStreaming := False,
        input_disabled := False, send_disabled := False,
        console := [ConsoleError (js ''Message sending error:'')]\<rparr>"

definition example_error_final :: page where
  "example_error_final =
     example_sent
       \<lparr>children := [Message RoleUser (js ''hello''), Message RoleAssistant (js ''hi''),
                     Message RoleError
                       ([0x30A8, 0x30E9, 0x30FC, 0x3A, 0x20] @ js ''overloaded'')],
        store := (\<lambda>a. new_streaming_el)
          (0 := \<lparr>thinking_hidden = True, streaming_text_hidden = False, typing_hidden = False,
                 typing_display_none = True, textContent = js ''hi''\<rparr>),
        scrollTop := 200,
        streamingResponse := None, streamingText := None, typingIndicator := None,
        thinkingIndicator := None, isStreaming := False,
        input_disabled := False, send_disabled := False,
        console := [ConsoleError (js ''Streaming error:'')]\<rparr>"

section \<open>Observations\<close>

text \<open>The committed messages of the transcript, in order.\<close>

fun is_message :: "child \<Rightarrow> bool" where
  "is_message (Message r c) = True"
| "is_message (Stream a) = False"
| "is_message (Markup m) = False"

definition committed :: "page \<Rightarrow> child list" where
  "committed s = filter is_message (children s)"

text \<open>Repeated calls of \<open>getOrCreateSessionId\<close> with nothing in between, each with
  its own clock value and random draws: the ids returned, in order.\<close>

fun repeat_resolve ::
    "(nat \<times> (nat \<Rightarrow> jsstring)) list \<Rightarrow> page \<Rightarrow> (jsstring list \<times> page) option" where
  "repeat_resolve [] s = Some ([], s)"
| "repeat_resolve ((now, random) # envs) s =
     (case getOrCreateSessionId now random s of
        None \<Rightarrow> None
      | Some (sid, s1) \<Rightarrow>
          (case repeat_resolve envs s1 of
             None \<Rightarrow> None
           | Some (ids, s2) \<Rightarrow> Some (sid # ids, s2)))"

text \<open>
  What a sequence of handled events amounts to: \<open>is_terminal\<close> holds of the events
  that settle the state machine, \<open>event_text\<close> is the text that an event appends to
  the streaming text, \<open>streamed_text\<close> the text that a sequence of events accumulates.
\<close>

fun is_terminal :: "event_data \<Rightarrow> bool" where
  "is_terminal EventNull = False"
| "is_terminal (EventObj event_type t e) =
     (event_type = JStr (js ''complete'') \<or> event_type = JStr (js ''error''))"

fun event_text :: "event_data \<Rightarrow> jsstring" where
  "event_text EventNull = []"
| "event_text (EventObj event_type t e) =
     (if event_type = JStr (js ''chunk'') \<and> truthy t then ToString t else [])"

definition streamed_text :: "event_data list \<Rightarrow> jsstring" where
  "streamed_text evs = concat (map event_text evs)"

text \<open>
  Two invariants of the read loop. While a response streams, the transcript ends
  with the one streaming response of the document, every reference of the manager
  points to it, and its text is \<open>acc\<close>. After the state machine has settled, the
  transcript is \<open>cs\<close> and nothing streams.
\<close>

definition streaming_inv :: "nat \<Rightarrow> jsstring \<Rightarrow> child list \<Rightarrow> page \<Rightarrow> bool" where
  "streaming_inv a acc cs s =
     (children s = cs @ [Stream a] \<and> first_stream cs = None
      \<and> streamingResponse s = Some a \<and> streamingText s = Some a
      \<and> typingIndicator s = Some a \<and> thinkingIndicator s = Some a
      \<and> isStreaming s \<and> textContent (store s a) = acc)"

definition settled_inv :: "child list \<Rightarrow> page \<Rightarrow> bool" where
  "settled_inv cs s = (children s = cs \<and> \<not> isStreaming s)"

section \<open>Evaluation and basic facts\<close>

lemmas dom_defs = transcript_def scrollHeight_def maxScroll_def set_scrollTop_def appendChild_def
  replaceChild_def set_innerHTML_def update_el_def getElementById_def console_log_def
  scrollToBottom_def smartScrollToBottom_def createMessageElement_def addUserMessage_def
  addAssistantMessage_def addErrorMessage_def onError_def

lemmas streaming_defs = new_streaming_el_def startStreaming_def
  completeStreaming_def append_chunk_text_def show_streaming_text_def handle_chunk_def

lemmas example_defs = example_layout_def example_page_def init_page_def chunk_event_def
  complete_event_def error_event_def js_def

declare handleStreamingEvent.simps [simp del]

declare digits.simps [simp del]

lemma handle_chunk_event [simp]:
  "handleStreamingEvent (EventObj (JStr (js ''chunk'')) t e) s = handle_chunk t s"
  by (simp add: handleStreamingEvent.simps js_def)

lemma handle_complete_event [simp]:
  "handleStreamingEvent (EventObj (JStr (js ''complete'')) t e) s = completeStreaming s"
  by (simp add: handleStreamingEvent.simps js_def)

lemma handle_error_event [simp]:
  "handleStreamingEvent (EventObj (JStr (js ''error'')) t e) s =
     completeStreaming
       (onError ([0x30A8, 0x30E9, 0x30FC, 0x3A, 0x20] @ ToString e)
          (console_log (ConsoleError (js ''Streaming error:'')) s))"
  by (simp add: handleStreamingEvent.simps js_def)

lemma example_page_eval:
  "example_page =
     \<lparr>children = [Message RoleUser [104, 101, 108, 108, 111], Stream 0],
      store = (\<lambda>a. new_streaming_el), next_addr = Suc 0, layout = example_layout,
      scrollTop = 100, clientHeight = 100,
      streamingResponse = Some 0, streamingText = Some 0, typingIndicator = Some 0,
      thinkingIndicator = Some 0, isStreaming = True,
      sessionId = None, isNewSessionJustCreated = False, localStorage = None,
      input_value = [], input_disabled = False, send_disabled = False,
      requests = [], console = [], timers = [], location_login = False\<rparr>"
  by (simp add: example_defs dom_defs streaming_defs Let_def fun_upd_idem)

lemmas eval_defs = example_streaming_def example_settled_def example_restarted_def
  example_page_eval process_line_def startsWith_def example_parse_def dom_defs streaming_defs
  example_defs Let_def handleStreamingEvent.simps

lemma example_streaming_eval:
  "example_streaming =
     \<lparr>children = [Message RoleUser (js ''hello''), Stream 0],
      store = (\<lambda>a. new_streaming_el)
        (0 := \<lparr>thinking_hidden = True, streaming_text_hidden = False, typing_hidden = False,
               typing_display_none = False, textContent = js ''hi''\<rparr>),
      next_addr = Suc 0, layout = example_layout, scrollTop = 100, clientHeight = 100,
      streamingResponse = Some 0, streamingText = Some 0, typingIndicator = Some 0,
      thinkingIndicator = Some 0, isStreaming = True,
      sessionId = None, isNewSessionJustCreated = False, localStorage = None,
      input_value = [], input_disabled = False, send_disabled = False,
      requests = [], console = [], timers = [], location_login = False\<rparr>"
  by (simp add: eval_defs)

lemma example_settled_eval:
  "example_settled =
     \<lparr>children = [Message RoleUser (js ''hello''), Message RoleAssistant (js ''hi'')],
      store = (\<lambda>a. new_streaming_el)
        (0 := \<lparr>thinking_hidden = True, streaming_text_hidden = False, typing_hidden = False,
               typing_display_none = True, textContent = js ''hi''\<rparr>),
      next_addr = Suc 0, layout = example_layout, scrollTop = 100, clientHeight = 100,
      streamingResponse = None, streamingText = None, typingIndicator = None,
      thinkingIndicator = None, isStreaming = False,
      sessionId = None, isNewSessionJustCreated = False, localStorage = None,
      input_value = [], input_disabled = False, send_disabled = False,
      requests = [], console = [], timers = [], location_login = False\<rparr>"
  by (simp add: eval_defs)

lemma example_restarted_eval:
  "example_restarted =
     \<lparr>children = [Message RoleUser (js ''hello''), Message RoleAssistant (js ''hi''), Stream 1],
      store = (\<lambda>a. new_streaming_el)
        (0 := \<lparr>thinking_hidden = True, streaming_text_hidden = False, typing_hidden = False,
               typing_display_none = True, textContent = js ''hi''\<rparr>,
         1 := \<lparr>thinking_hidden = True, streaming_text_hidden = False, typing_hidden = False,
               typing_display_none = False, textContent = js '' there''\<rparr>),
      next_addr = 2, layout = example_layout, scrollTop = 200, clientHeight = 100,
      streamingResponse = Some 1, streamingText = Some 1, typingIndicator = Some 1,
      thinkingIndicator = Some 1, isStreaming = True,
      sessionId = None, isNewSessionJustCreated = False, localStorage = None,
      input_value = [], input_disabled = False, send_disabled = False,
      requests = [], console = [], timers = [], location_login = False\<rparr>"
  by (simp add: eval_defs numeral_2_eq_2)

lemma example_scrolled_up_eval:
  "example_scrolled_up =
     \<lparr>children = [Message RoleUser (js ''b''), Message RoleAssistant (js ''c''),
                  Message RoleUser (js ''d''), Stream 0],
      store = (\<lambda>a. new_streaming_el), next_addr = Suc 0, layout = example_layout,
      scrollTop = 0, clientHeight = 100,
      streamingResponse = Some 0, streamingText = Some 0, typingIndicator = Some 0,
      thinkingIndicator = Some 0, isStreaming = True,
      sessionId = None, isNewSessionJustCreated = False, localStorage = None,
      input_value = [], input_disabled = False, send_disabled = False,
      requests = [], console = [], timers = [], location_login = False\<rparr>"
  by (simp add: example_scrolled_up_def eval_defs fun_upd_idem)

lemmas session_eval = getOrCreateSessionId_def generate_session_id_def pad_session_id.simps
  digits.simps substring_def example_random_def js_def init_page_def resetChatSession_def
  startNewSession_def console_log_def Let_def

lemmas loop_eval = events_passed_def example_platform_def example_stream_def utf8_def
  record_event_def startsWith_def example_parse_def chunk_event_def complete_event_def
  error_event_def js_def Let_def

lemma dropWhile_all_iff: "(\<forall>y\<in>set (dropWhile P xs). P y) \<longleftrightarrow> list_all P xs"
  by (induction xs) auto

lemma dropWhile_nil_iff: "dropWhile P xs = [] \<longleftrightarrow> list_all P xs"
  by (induction xs) auto

lemma trim_empty_iff: "trim x = [] \<longleftrightarrow> list_all is_whitespace x"
  by (simp add: trim_def dropWhile_nil_iff list_all_iff dropWhile_all_iff [unfolded list_all_iff])

section \<open>Chunks after termination (C1)\<close>

lemma first_stream_append:
  "first_stream (cs @ [Stream a]) = (case first_stream cs of None \<Rightarrow> Some a | Some b \<Rightarrow> Some b)"
  by (induction cs rule: first_stream.induct) simp_all

lemma completeStreaming_settled:
  assumes "completeStreaming s = Return s1"
  shows "\<not> isStreaming s1 \<and> streamingResponse s1 = None \<and> streamingText s1 = None
         \<and> typingIndicator s1 = None \<and> thinkingIndicator s1 = None"
  using assms
  by (auto simp: completeStreaming_def replaceChild_def scrollToBottom_def set_scrollTop_def
        update_el_def Let_def split: option.splits if_splits)

lemma terminal_event_settled:
  assumes "ev = EventObj (JStr (js ''complete'')) t0 e0 \<or> ev = EventObj (JStr (js ''error'')) t0 e0"
      and "handleStreamingEvent ev s = Return s1"
  shows "\<not> isStreaming s1 \<and> streamingResponse s1 = None \<and> streamingText s1 = None
         \<and> typingIndicator s1 = None \<and> thinkingIndicator s1 = None"
  using assms by (auto dest: completeStreaming_settled)

lemma chunk_restarts:
  assumes "\<not> isStreaming s1" and "truthy t"
  shows "\<exists>s2. handle_chunk t s1 = Return s2
           \<and> children s2 = children s1 @ [Stream (next_addr s1)]
           \<and> isStreaming s2
           \<and> streamingResponse s2 = Some (next_addr s1)
           \<and> streamingText s2 = first_stream (children s2)
           \<and> (\<exists>b. first_stream (children s2) = Some b
                \<and> textContent (store s2 b)
                    = textContent (((store s1)(next_addr s1 := new_streaming_el)) b) @ ToString t)"
  using assms
  by (auto simp: handle_chunk_def startStreaming_def show_streaming_text_def append_chunk_text_def
        dom_defs first_stream_append Let_def split: option.splits)

text \<open>
  C1, as the code has it. Once a \<open>complete\<close> or \<open>error\<close> event has been handled, a
  further \<open>chunk\<close> whose text is falsy changes nothing. A further \<open>chunk\<close> with a
  truthy text is not ignored: the handler starts streaming again, which appends one
  new streaming response after the entries already there, and appends the text to
  the streaming text that the document holds first.
\<close>

theorem chunk_after_termination:
  assumes "ev = EventObj (JStr (js ''complete'')) t0 e0 \<or> ev = EventObj (JStr (js ''error'')) t0 e0"
      and "handleStreamingEvent ev s = Return s1"
  shows "(\<not> truthy t \<longrightarrow> handleStreamingEvent (EventObj (JStr (js ''chunk'')) t e) s1 = Return s1)
       \<and> (truthy t \<longrightarrow>
            (\<exists>s2. handleStreamingEvent (EventObj (JStr (js ''chunk'')) t e) s1 = Return s2
               \<and> children s2 = children s1 @ [Stream (next_addr s1)]
               \<and> isStreaming s2
               \<and> streamingResponse s2 = Some (next_addr s1)
               \<and> streamingText s2 = first_stream (children s2)
               \<and> (\<exists>b. first_stream (children s2) = Some b
                    \<and> textContent (store s2 b)
                        = textContent (((store s1)(next_addr s1 := new_streaming_el)) b)
                            @ ToString t)))"
proof -
  have idle: "\<not> isStreaming s1"
    using terminal_event_settled [OF assms] by simp
  have chunk: "handleStreamingEvent (EventObj (JStr (js ''chunk'')) t e) s1 = handle_chunk t s1"
    by simp
  show ?thesis
  proof (cases "truthy t")
    case True
    then show ?thesis unfolding chunk using chunk_restarts [OF idle True] by simp
  next
    case False
    then show ?thesis unfolding chunk by (simp add: handle_chunk_def)
  qed
qed

text \<open>
  C1 as stated fails: after \<open>chunk "hi"\<close> and \<open>complete\<close> the transcript holds the
  user's message and the assistant message \<open>hi\<close>; one more \<open>chunk " there"\<close> adds a
  pending entry with that text.
\<close>

theorem chunk_after_termination_counterexample:
  "handleStreamingEvent complete_event
       (process_line example_parse (js ''data: {\"event_type\":\"chunk\",\"text\":\"hi\"}'') example_page)
     = Return example_settled
   \<and> handleStreamingEvent (chunk_event (JStr (js '' there''))) example_settled
     = Return example_restarted
   \<and> transcript example_settled
     = [Committed RoleUser (js ''hello''), Committed RoleAssistant (js ''hi'')]
   \<and> transcript example_restarted
     = [Committed RoleUser (js ''hello''), Committed RoleAssistant (js ''hi''),
        Pending \<lparr>thinking_hidden = True, streaming_text_hidden = False, typing_hidden = False,
                 typing_display_none = False, textContent = js '' there''\<rparr>]"
  by (simp add: eval_defs numeral_2_eq_2)

theorem chunk_after_termination_witness:
  "handleStreamingEvent (EventObj (JStr (js ''chunk'')) (JStr []) JUndefined) example_settled
     = Return example_settled
   \<and> children example_restarted = children example_settled @ [Stream 1]
   \<and> textContent (store example_restarted 1) = js '' there''"
proof -
  have a: "handleStreamingEvent complete_event
       (process_line example_parse (js ''data: {\"event_type\":\"chunk\",\"text\":\"hi\"}'') example_page)
     = Return example_settled"
    by (simp add: eval_defs)
  have b: "handleStreamingEvent (EventObj (JStr (js ''chunk'')) (JStr (js '' there'')) JUndefined) example_settled
     = Return example_restarted"
    by (simp add: eval_defs numeral_2_eq_2)
  have c: "complete_event = EventObj (JStr (js ''complete'')) JUndefined JUndefined
     \<or> complete_event = EventObj (JStr (js ''error'')) JUndefined JUndefined"
    by (simp add: complete_event_def)
  from chunk_after_termination [OF c a, of "JStr []" JUndefined]
  have n: "handleStreamingEvent (EventObj (JStr (js ''chunk'')) (JStr []) JUndefined) example_settled
     = Return example_settled" by simp
  from chunk_after_termination [OF c a, of "JStr (js '' there'')" JUndefined] b
  have r: "children example_restarted = children example_settled @ [Stream (next_addr example_settled)]"
    by (simp add: js_def)
  show ?thesis using n r by (simp add: example_settled_eval example_restarted_eval)
qed

section \<open>Settling (C4)\<close>

lemma replace_first_at:
  "old \<notin> set pre \<Longrightarrow> replace_first new old (pre @ old # post) = pre @ new # post"
  by (induction pre) auto

lemma completeStreaming_promotes:
  assumes "streamingResponse s = Some a" and "children s = pre @ Stream a # post"
      and "Stream a \<notin> set pre" and "streamingText s = Some b"
      and "textContent (store s b) \<noteq> []"
  shows "\<exists>s1. completeStreaming s = Return s1
           \<and> children s1 = pre @ Message RoleAssistant (textContent (store s b)) # post
           \<and> store s1 b = (store s b)\<lparr>typing_display_none :=
                 (typingIndicator s = Some b \<or> typing_display_none (store s b))\<rparr>
           \<and> \<not> isStreaming s1 \<and> streamingResponse s1 = None \<and> streamingText s1 = None
           \<and> typingIndicator s1 = None \<and> thinkingIndicator s1 = None"
  using assms
  by (auto simp: completeStreaming_def replaceChild_def createMessageElement_def scrollToBottom_def
        set_scrollTop_def update_el_def replace_first_at Let_def split: option.splits)

lemma completeStreaming_empty:
  assumes "streamingText s = Some b" and "textContent (store s b) = []"
  shows "\<exists>s1. completeStreaming s = Return s1 \<and> committed s1 = committed s
           \<and> \<not> isStreaming s1 \<and> streamingResponse s1 = None \<and> streamingText s1 = None
           \<and> typingIndicator s1 = None \<and> thinkingIndicator s1 = None"
  using assms
  by (auto simp: completeStreaming_def committed_def scrollToBottom_def
        set_scrollTop_def update_el_def Let_def split: option.splits)

lemma error_event_promotes:
  assumes "streamingResponse s = Some a" and "children s = pre @ Stream a # post"
      and "Stream a \<notin> set pre" and "streamingText s = Some b"
      and "textContent (store s b) \<noteq> []"
  shows "\<exists>s1. handleStreamingEvent (EventObj (JStr (js ''error'')) t e) s = Return s1
           \<and> children s1 = pre @ Message RoleAssistant (textContent (store s b)) # post
                 @ [Message RoleError ([0x30A8, 0x30E9, 0x30FC, 0x3A, 0x20] @ ToString e)]
           \<and> \<not> isStreaming s1 \<and> streamingResponse s1 = None \<and> streamingText s1 = None"
proof -
  let ?s' = "onError ([0x30A8, 0x30E9, 0x30FC, 0x3A, 0x20] @ ToString e)
               (console_log (ConsoleError (js ''Streaming error:'')) s)"
  have ev: "handleStreamingEvent (EventObj (JStr (js ''error'')) t e) s = completeStreaming ?s'"
    by simp
  have 1: "streamingResponse ?s' = Some a" "streamingText ?s' = Some b" "store ?s' = store s"
    "children ?s' = pre @ Stream a
       # (post @ [Message RoleError ([0x30A8, 0x30E9, 0x30FC, 0x3A, 0x20] @ ToString e)])"
    using assms by (simp_all add: dom_defs)
  have 2: "textContent (store ?s' b) \<noteq> []" using assms(5) 1 by simp
  from completeStreaming_promotes [OF 1(1) 1(4) assms(3) 1(2) 2]
  show ?thesis unfolding ev using 1(3) by auto
qed

text \<open>
  C4, as the code has it. Let the streaming response be a child of the transcript.
  When the accumulated text is not empty, \<open>completeStreaming\<close> puts a committed
  assistant message with that text in the place of the streaming response; this is
  so on completion and on an \<open>error\<close> event alike, where the error message is
  appended after it (the text received so far is kept, not discarded). When the
  accumulated text is empty, no message is committed.
\<close>

theorem settle_promotes_pending:
  assumes "streamingResponse s = Some a" and "children s = pre @ Stream a # post"
      and "Stream a \<notin> set pre" and "streamingText s = Some b"
  shows "(textContent (store s b) \<noteq> [] \<longrightarrow>
            (\<exists>s1. completeStreaming s = Return s1
               \<and> children s1 = pre @ Message RoleAssistant (textContent (store s b)) # post
               \<and> \<not> isStreaming s1 \<and> streamingResponse s1 = None \<and> streamingText s1 = None)
          \<and> (\<exists>s1. handleStreamingEvent (EventObj (JStr (js ''error'')) t e) s = Return s1
               \<and> children s1 = pre @ Message RoleAssistant (textContent (store s b)) # post
                     @ [Message RoleError ([0x30A8, 0x30E9, 0x30FC, 0x3A, 0x20] @ ToString e)]
               \<and> \<not> isStreaming s1 \<and> streamingResponse s1 = None \<and> streamingText s1 = None))
       \<and> (textContent (store s b) = [] \<longrightarrow>
            (\<exists>s1. completeStreaming s = Return s1 \<and> committed s1 = committed s
               \<and> \<not> isStreaming s1 \<and> streamingResponse s1 = None \<and> streamingText s1 = None))"
proof (cases "textContent (store s b) = []")
  case True
  then show ?thesis using completeStreaming_empty [OF assms(4)] by auto
next
  case False
  then show ?thesis
    using completeStreaming_promotes [OF assms False] error_event_promotes [OF assms False, of t e]
    by blast
qed

text \<open>
  With an empty text \<open>completeStreaming\<close> only drops its references: the streaming
  response, still showing its thinking indicator, stays in the transcript.
\<close>

lemma empty_completion_leaves_streaming_response:
  "handleStreamingEvent complete_event example_page
     = Return (example_page
         \<lparr>store := (\<lambda>a. new_streaming_el)
            (0 := new_streaming_el\<lparr>typing_display_none := True\<rparr>),
          streamingResponse := None, streamingText := None, typingIndicator := None,
          thinkingIndicator := None, isStreaming := False\<rparr>)
   \<and> children example_page = [Message RoleUser (js ''hello''), Stream 0]"
  by (simp add: eval_defs)

text \<open>
  C4 as stated fails: an \<open>error\<close> event after \<open>chunk "hi"\<close> does not discard the
  pending entry but commits it as the assistant message \<open>hi\<close>.
\<close>

theorem settle_promotes_pending_counterexample:
  "transcript example_streaming
     = [Committed RoleUser (js ''hello''),
        Pending \<lparr>thinking_hidden = True, streaming_text_hidden = False, typing_hidden = False,
                 typing_display_none = False, textContent = js ''hi''\<rparr>]
   \<and> transcript (process_line example_parse
         (js ''data: {\"event_type\":\"error\",\"error\":\"overloaded\"}'') example_streaming)
     = [Committed RoleUser (js ''hello''), Committed RoleAssistant (js ''hi''),
        Committed RoleError ([0x30A8, 0x30E9, 0x30FC, 0x3A, 0x20] @ js ''overloaded'')]"
  by (simp add: example_streaming_eval eval_defs)

theorem settle_promotes_pending_witness:
  "(\<exists>s1. completeStreaming example_streaming = Return s1
         \<and> children s1 = [Message RoleUser (js ''hello''), Message RoleAssistant (js ''hi'')])
   \<and> (\<exists>s1. completeStreaming example_page = Return s1
         \<and> committed s1 = [Message RoleUser (js ''hello'')])"
proof -
  have a: "streamingResponse example_streaming = Some 0"
    "children example_streaming = [Message RoleUser (js ''hello'')] @ Stream 0 # []"
    "Stream 0 \<notin> set [Message RoleUser (js ''hello'')]"
    "streamingText example_streaming = Some 0"
    "textContent (store example_streaming 0) = js ''hi''"
    by (simp_all add: example_streaming_eval)
  have b: "streamingResponse example_page = Some 0"
    "children example_page = [Message RoleUser (js ''hello'')] @ Stream 0 # []"
    "streamingText example_page = Some 0"
    "textContent (store example_page 0) = []"
    "committed example_page = [Message RoleUser (js ''hello'')]"
    by (simp_all add: example_page_eval new_streaming_el_def committed_def js_def)
  show ?thesis
    using settle_promotes_pending [OF a(1) a(2) a(3) a(4), of JUndefined JUndefined]
      settle_promotes_pending [OF b(1) b(2) a(3) b(3), of JUndefined JUndefined]
    by (auto simp: a(5) b(4) b(5) js_def)
qed

section \<open>Session identity (C5)\<close>

lemma pad_session_id_length:
  "pad_session_id random k sid = Some r \<Longrightarrow> 33 \<le> length r"
  by (rule pad_session_id.raw_induct [where P = "\<lambda>random k sid r. 33 \<le> length r"])
     (auto split: if_splits)

lemma pad_session_id_terminates:
  assumes "\<forall>k. 3 \<le> length (random k)"
  shows "\<exists>r. pad_session_id random k sid = Some r"
proof (induction "33 - length sid" arbitrary: k sid)
  case 0
  then show ?case by (subst pad_session_id.simps) simp
next
  case (Suc n)
  have "length (substring 2 3 (random k)) = 1"
    using assms [rule_format, of k] by (simp add: substring_def)
  then have "n = 33 - length (sid @ substring 2 3 (random k))"
    using Suc(2) by simp
  from Suc(1) [OF this, of "Suc k"] show ?case
    by (subst pad_session_id.simps) simp
qed

lemma getOrCreateSessionId_stored:
  "localStorage s = Some p \<Longrightarrow> p \<noteq> [] \<Longrightarrow> getOrCreateSessionId now random s = Some (p, s)"
  by (simp add: getOrCreateSessionId_def)

lemma getOrCreateSessionId_generated:
  assumes "localStorage s = None \<or> localStorage s = Some []" and "\<forall>k. 3 \<le> length (random k)"
  shows "\<exists>sid. getOrCreateSessionId now random s = Some (sid, s\<lparr>localStorage := Some sid\<rparr>)
           \<and> 33 \<le> length sid"
proof -
  obtain r where r: "generate_session_id now random = Some r"
    using pad_session_id_terminates [OF assms(2)] by (auto simp: generate_session_id_def Let_def)
  then have "33 \<le> length r"
    by (auto simp: generate_session_id_def Let_def dest: pad_session_id_length)
  then show ?thesis using assms(1) r by (auto simp: getOrCreateSessionId_def)
qed

lemma getOrCreateSessionId_result:
  assumes "getOrCreateSessionId now random s = Some (sid, s1)"
  shows "sid \<noteq> [] \<and> localStorage s1 = Some sid"
  using assms
  by (auto simp: getOrCreateSessionId_def generate_session_id_def Let_def
        split: if_splits option.splits dest: pad_session_id_length)

lemma repeat_resolve_stored:
  "localStorage s = Some p \<Longrightarrow> p \<noteq> [] \<Longrightarrow>
     repeat_resolve envs s = Some (replicate (length envs) p, s)"
  by (induction envs) (auto simp: getOrCreateSessionId_stored)

text \<open>
  C5, as the code has it. \<open>getOrCreateSessionId\<close> returns the persisted id whenever
  one is present and not empty; its length is not looked at. Otherwise it
  synthesizes an id, pads it to at least 33 code units, persists and returns it
  (it returns provided every random draw has a digit after \<open>0.\<close>). Whatever a call
  returned, every later call with no reset in between returns the same id and
  leaves the page as it is.
\<close>

theorem session_id_resolution:
  "(localStorage s = Some p \<and> p \<noteq> [] \<longrightarrow> getOrCreateSessionId now random s = Some (p, s))
   \<and> ((localStorage s = None \<or> localStorage s = Some []) \<and> (\<forall>k. 3 \<le> length (random k)) \<longrightarrow>
         (\<exists>sid. getOrCreateSessionId now random s = Some (sid, s\<lparr>localStorage := Some sid\<rparr>)
            \<and> 33 \<le> length sid))
   \<and> (getOrCreateSessionId now random s = Some (sid, s1) \<longrightarrow>
         repeat_resolve envs s1 = Some (replicate (length envs) sid, s1))"
  using getOrCreateSessionId_generated [of s random now]
    getOrCreateSessionId_result [of now random s sid s1]
  by (auto simp: getOrCreateSessionId_stored repeat_resolve_stored)

text \<open>
  C5 as stated fails: a persisted id of three code units is returned as it is,
  although it is shorter than 33.
\<close>

theorem session_id_resolution_counterexample:
  "getOrCreateSessionId 1700000000 example_random
       ((init_page example_layout 100)\<lparr>localStorage := Some (js ''abc'')\<rparr>)
     = Some (js ''abc'', (init_page example_layout 100)\<lparr>localStorage := Some (js ''abc'')\<rparr>)
   \<and> length (js ''abc'') < 33"
  by (simp add: session_eval)

theorem session_id_resolution_witness:
  "getOrCreateSessionId 1700000000 example_random (init_page example_layout 100)
     = Some (js ''healthmate-chat-1700000000-z-zzzz'',
             (init_page example_layout 100)
               \<lparr>localStorage := Some (js ''healthmate-chat-1700000000-z-zzzz'')\<rparr>)
   \<and> length (js ''healthmate-chat-1700000000-z-zzzz'') = 33
   \<and> repeat_resolve [(1700000001, example_random), (1700000002, example_random)]
         ((init_page example_layout 100)
            \<lparr>localStorage := Some (js ''healthmate-chat-1700000000-z-zzzz'')\<rparr>)
     = Some ([js ''healthmate-chat-1700000000-z-zzzz'', js ''healthmate-chat-1700000000-z-zzzz''],
             (init_page example_layout 100)
               \<lparr>localStorage := Some (js ''healthmate-chat-1700000000-z-zzzz'')\<rparr>)"
proof -
  let ?id = "js ''healthmate-chat-1700000000-z-zzzz''"
  let ?s1 = "(init_page example_layout 100)\<lparr>localStorage := Some ?id\<rparr>"
  have e: "getOrCreateSessionId 1700000000 example_random (init_page example_layout 100)
             = Some (?id, ?s1)"
    by (simp add: session_eval)
  have l: "length ?id = 33" by (simp add: js_def)
  from session_id_resolution
    [of "init_page example_layout 100" "[]" 1700000000 example_random ?id ?s1
        "[(1700000001, example_random), (1700000002, example_random)]"]
  have "repeat_resolve [(1700000001, example_random), (1700000002, example_random)] ?s1
          = Some ([?id, ?id], ?s1)"
    using e by simp
  then show ?thesis using e l by simp
qed

section \<open>Fresh session and history (C6)\<close>

lemma loadInitialHistory_skips:
  "isNewSession s \<Longrightarrow> loadInitialHistory r1 r2 s = s"
  by (simp add: loadInitialHistory_def)

lemma startNewSession_flag:
  "startNewSession fetch_result now random s = Some (sid, s1) \<Longrightarrow> isNewSession s1"
  by (auto simp: startNewSession_def isNewSession_def Let_def split: option.splits)

text \<open>
  C6, what the code does. After \<open>startNewSession\<close> the startup path
  \<open>loadInitialHistory\<close> returns at once and issues no request. It leaves the page
  exactly as it was, the fresh-session flag included: nothing calls
  \<open>clearNewSessionFlag\<close>, so the flag is not consumed and the next
  \<open>loadInitialHistory\<close> is skipped as well.
\<close>

theorem fresh_session_skips_history:
  "startNewSession fetch_result now random s = Some (sid, s1) \<Longrightarrow>
     loadInitialHistory r1 r2 s1 = s1
     \<and> isNewSession (loadInitialHistory r1 r2 s1)
     \<and> loadInitialHistory r3 r4 (loadInitialHistory r1 r2 s1) = s1"
  using startNewSession_flag [of fetch_result now random s sid s1]
  by (simp add: loadInitialHistory_skips)

theorem fresh_session_skips_history_witness:
  "startNewSession (Rejected (js ''Failed to fetch'')) 1700000000 example_random
       (init_page example_layout 100)
     = Some (js ''healthmate-chat-1700000000-z-zzzz'',
             (init_page example_layout 100)
               \<lparr>sessionId := Some (js ''healthmate-chat-1700000000-z-zzzz''),
                isNewSessionJustCreated := True,
                localStorage := Some (js ''healthmate-chat-1700000000-z-zzzz''),
                requests := [ClearSession],
                console := [ConsoleWarn (js ''Failed to clear session on server:'')]\<rparr>)
   \<and> requests (loadInitialHistory (Fulfilled example_history_response)
                  (Fulfilled example_history_response)
         (loadInitialHistory (Fulfilled example_history_response)
            (Fulfilled example_history_response)
            ((init_page example_layout 100)
               \<lparr>sessionId := Some (js ''healthmate-chat-1700000000-z-zzzz''),
                isNewSessionJustCreated := True,
                localStorage := Some (js ''healthmate-chat-1700000000-z-zzzz''),
                requests := [ClearSession],
                console := [ConsoleWarn (js ''Failed to clear session on server:'')]\<rparr>)))
     = [ClearSession]"
proof -
  let ?id = "js ''healthmate-chat-1700000000-z-zzzz''"
  let ?s1 = "(init_page example_layout 100)
               \<lparr>sessionId := Some ?id, isNewSessionJustCreated := True,
                localStorage := Some ?id, requests := [ClearSession],
                console := [ConsoleWarn (js ''Failed to clear session on server:'')]\<rparr>"
  have e: "startNewSession (Rejected (js ''Failed to fetch'')) 1700000000 example_random
             (init_page example_layout 100) = Some (?id, ?s1)"
    by (simp add: session_eval)
  have r: "requests ?s1 = [ClearSession]" by simp
  from fresh_session_skips_history [OF e, of "Fulfilled example_history_response"
      "Fulfilled example_history_response" "Fulfilled example_history_response"
      "Fulfilled example_history_response"]
  show ?thesis using e r by simp
qed

text \<open>Had the first skipped load cleared the flag, the next load would have requested
  the history.\<close>

lemma history_load_after_clearing_flag:
  "requests (loadInitialHistory (Fulfilled example_history_response)
                  (Fulfilled example_history_response)
            (clearNewSessionFlag ((init_page example_layout 100)
               \<lparr>sessionId := Some (js ''healthmate-chat-1700000000-z-zzzz''),
                isNewSessionJustCreated := True,
                localStorage := Some (js ''healthmate-chat-1700000000-z-zzzz''),
                requests := [ClearSession],
                console := [ConsoleWarn (js ''Failed to clear session on server:'')]\<rparr>)))
     = [ClearSession, GetHistory (js ''healthmate-chat-1700000000-z-zzzz'')]"
  by (simp add: loadInitialHistory_def isNewSession_def clearNewSessionFlag_def getCurrentSessionId_def
     example_history_response_def ok_def issue_def showLoadingIndicator_def setContent_def dom_defs init_page_def js_def Let_def)

section \<open>Scroll policy (C7)\<close>

lemma scrollHeight_scrollTop_update [simp]: "scrollHeight (s\<lparr>scrollTop := v\<rparr>) = scrollHeight s"
  by (simp add: scrollHeight_def transcript_def)

lemma scrollToBottom_fields [simp]:
  "scrollHeight (scrollToBottom s) = scrollHeight s"
  "clientHeight (scrollToBottom s) = clientHeight s"
  "0 \<le> clientHeight s \<Longrightarrow> scrollTop (scrollToBottom s) = maxScroll s"
  by (simp_all add: scrollToBottom_def set_scrollTop_def maxScroll_def)

lemma maxScroll_scrollToBottom [simp]: "maxScroll (scrollToBottom s) = maxScroll s"
  by (simp add: maxScroll_def)

lemma show_streaming_text_scroll:
  "show_streaming_text s = Return s2 \<Longrightarrow>
     scrollTop s2 = scrollTop s \<and> clientHeight s2 = clientHeight s \<and> layout s2 = layout s
     \<and> children s2 = children s \<and> streamingText s2 = streamingText s"
  by (auto simp: show_streaming_text_def update_el_def Let_def split: option.splits if_splits)

lemma chunk_far_from_bottom:
  assumes "isStreaming s" and "handle_chunk t s = Return s1"
      and "70 < scrollHeight s - scrollTop s - clientHeight s"
      and "scrollHeight s \<le> scrollHeight s1"
  shows "scrollTop s1 = scrollTop s"
proof (cases "truthy t")
  case False
  then show ?thesis using assms(2) by (simp add: handle_chunk_def)
next
  case True
  then obtain s2 where s2: "show_streaming_text s = Return s2" and a: "append_chunk_text t s2 = Return s1"
    using assms(1,2) by (auto simp: handle_chunk_def split: outcome.splits)
  from a obtain tx where tx: "streamingText s2 = Some tx"
    and s1: "s1 = smartScrollToBottom (update_el tx (\<lambda>e. e\<lparr>textContent := textContent e @ ToString t\<rparr>) s2)"
    by (auto simp: append_chunk_text_def split: option.splits)
  let ?u = "update_el tx (\<lambda>e. e\<lparr>textContent := textContent e @ ToString t\<rparr>) s2"
  have u: "scrollTop ?u = scrollTop s" "clientHeight ?u = clientHeight s"
    using show_streaming_text_scroll [OF s2] by (simp_all add: update_el_def)
  have h: "scrollHeight s1 = scrollHeight ?u"
    unfolding s1 by (simp add: smartScrollToBottom_def)
  have far: "\<not> scrollHeight ?u - scrollTop ?u - clientHeight ?u \<le> 70"
    using assms(3,4) h u by simp
  show ?thesis unfolding s1 using far u by (simp add: smartScrollToBottom_def)
qed

text \<open>
  C7. While a response is streaming, a \<open>chunk\<close> handled when the viewer is more than
  70 pixels away from the bottom leaves the scroll position where it is (the
  distance is measured after the text has been appended, so this is for appends
  that do not shrink the content). Appending a user message or an error message
  always puts the scroll position at the bottom, whatever it was before.
\<close>

theorem scroll_policy_asymmetric:
  "(isStreaming s \<and> handleStreamingEvent (EventObj (JStr (js ''chunk'')) t e) s = Return s1
      \<and> 70 < scrollHeight s - scrollTop s - clientHeight s
      \<and> scrollHeight s \<le> scrollHeight s1
     \<longrightarrow> scrollTop s1 = scrollTop s)
   \<and> (0 \<le> clientHeight s \<longrightarrow>
         scrollTop (addUserMessage c s) = maxScroll (addUserMessage c s)
       \<and> scrollTop (addErrorMessage c s) = maxScroll (addErrorMessage c s))"
  using chunk_far_from_bottom [of s t s1]
  by (auto simp: addUserMessage_def addErrorMessage_def appendChild_def)

theorem scroll_policy_asymmetric_witness:
  "scrollHeight example_scrolled_up - scrollTop example_scrolled_up
      - clientHeight example_scrolled_up = 300
   \<and> scrollTop (process_line example_parse
         (js ''data: {\"event_type\":\"chunk\",\"text\":\"hi\"}'') example_scrolled_up) = 0
   \<and> scrollTop (addUserMessage (js ''e'') example_scrolled_up) = 400
   \<and> scrollTop (addErrorMessage (js ''e'') example_scrolled_up) = 400"
proof -
  let ?s1 = "process_line example_parse
         (js ''data: {\"event_type\":\"chunk\",\"text\":\"hi\"}'') example_scrolled_up"
  have a: "isStreaming example_scrolled_up" "0 \<le> clientHeight example_scrolled_up"
    "scrollTop example_scrolled_up = 0"
    by (simp_all add: example_scrolled_up_eval)
  have b: "handle_chunk (JStr (js ''hi'')) example_scrolled_up = Return ?s1"
    by (simp add: example_scrolled_up_eval eval_defs)
  have c: "scrollHeight example_scrolled_up - scrollTop example_scrolled_up
             - clientHeight example_scrolled_up = 300"
    by (simp add: example_scrolled_up_eval eval_defs)
  have d: "scrollHeight ?s1 = 400" "scrollHeight example_scrolled_up = 400"
    by (simp_all add: example_scrolled_up_eval eval_defs)
  have e: "maxScroll (addUserMessage (js ''e'') example_scrolled_up) = 400"
    "maxScroll (addErrorMessage (js ''e'') example_scrolled_up) = 400"
    by (simp_all add: example_scrolled_up_eval eval_defs)
  from scroll_policy_asymmetric
      [of example_scrolled_up "JStr (js ''hi'')" JUndefined ?s1 "js ''e''"]
  have "scrollTop ?s1 = scrollTop example_scrolled_up"
    and "scrollTop (addUserMessage (js ''e'') example_scrolled_up) = 400"
    and "scrollTop (addErrorMessage (js ''e'') example_scrolled_up) = 400"
    using a(1,2) b c d e by simp_all
  then show ?thesis using a(3) c by simp
qed

section \<open>Fragment boundaries (C3)\<close>

lemma split_nl_nonempty [simp]: "split_nl x \<noteq> []"
  by (induction x) (auto split: list.splits)

lemma split_nl_append:
  "split_nl (x @ y) = butlast (split_nl x) @ split_nl (last (split_nl x) @ y)"
proof (induction x)
  case Nil
  then show ?case by simp
next
  case (Cons c x)
  show ?case
  proof (cases "c = 0xA")
    case True
    then show ?thesis using Cons by simp
  next
    case False
    obtain l ls where x: "split_nl x = l # ls"
      by (cases "split_nl x") simp_all
    show ?thesis
    proof (cases ls)
      case Nil
      then show ?thesis using False Cons x by (simp split: list.splits)
    next
      case (Cons l2 ls2)
      then show ?thesis using False Cons.IH x by (simp split: list.splits)
    qed
  qed
qed

lemma split_nl_no_newline: "0xA \<notin> set b \<Longrightarrow> split_nl b = [b]"
  by (induction b) auto

lemma last_split_nl_no_newline: "0xA \<notin> set (last (split_nl x))"
  by (induction x) (auto split: list.splits)

lemma decode_append:
  "decode step d (a @ b) =
     (case decode step d a of
        (o1, d1) \<Rightarrow> (case decode step d1 b of (o2, d2) \<Rightarrow> (o1 @ o2, d2)))"
  by (induction a arbitrary: d) (auto split: prod.splits)

lemma read_loop_fold:
  "0xA \<notin> set buffer \<Longrightarrow>
     read_loop on_line step d buffer reads s =
       fold on_line (butlast (split_nl (buffer @ fst (decode step d (concat reads))))) s"
proof (induction reads arbitrary: d buffer s)
  case Nil
  then show ?case by (simp add: split_nl_no_newline)
next
  case (Cons v reads)
  obtain chunk d1 where v: "decode step d v = (chunk, d1)" by (cases "decode step d v")
  obtain rest d2 where r: "decode step d1 (concat reads) = (rest, d2)"
    by (cases "decode step d1 (concat reads)")
  let ?lines = "split_nl (buffer @ chunk)"
  have ih: "read_loop on_line step d1 (last ?lines) reads (fold on_line (butlast ?lines) s)
      = fold on_line (butlast (split_nl (last ?lines @ rest))) (fold on_line (butlast ?lines) s)"
    using Cons.IH [OF last_split_nl_no_newline] r by simp
  have "split_nl (buffer @ chunk @ rest) = butlast ?lines @ split_nl (last ?lines @ rest)"
    using split_nl_append [of "buffer @ chunk" rest] by simp
  then have "butlast (split_nl (buffer @ chunk @ rest))
      = butlast ?lines @ butlast (split_nl (last ?lines @ rest))"
    by (simp add: butlast_append)
  then show ?case
    using ih v r by (simp add: decode_append Let_def)
qed

lemma read_loop_whole:
  "read_loop on_line step d [] rs x = read_loop on_line step d [] [concat rs] x"
  by (simp only: read_loop_fold [of "[]", simplified] concat.simps append_Nil2)

text \<open>
  C3. However the bytes of a response body are cut into fragments, the read loop
  passes the same events in the same order to \<open>handleStreamingEvent\<close> as when the
  whole body arrives in one read; the loop ends in the same page, and so does the
  whole send.
\<close>

theorem decoder_fragment_independence:
  "events_passed P reads = events_passed P [concat reads]
   \<and> read_loop (process_line (JSON_parse P)) (decoder_step P) (decoder_init P) [] reads s
     = read_loop (process_line (JSON_parse P)) (decoder_step P) (decoder_init P) []
         [concat reads] s
   \<and> handleFormSubmit P (Fulfilled r) s
     = handleFormSubmit P (Fulfilled (r\<lparr>fragments := [concat (fragments r)]\<rparr>)) s"
proof -
  have ok: "ok (r\<lparr>fragments := [concat (fragments r)]\<rparr>) = ok r"
    by (simp add: ok_def)
  have c1: "events_passed P reads = events_passed P [concat reads]"
    unfolding events_passed_def by (rule read_loop_whole)
  have c3: "handleFormSubmit P (Fulfilled r) s
     = handleFormSubmit P (Fulfilled (r\<lparr>fragments := [concat (fragments r)]\<rparr>)) s"
    using read_loop_whole [of "process_line (JSON_parse P)" "decoder_step P" "decoder_init P" "fragments r"]
    by (simp add: handleFormSubmit_def ok Let_def del: read_loop.simps)
  show ?thesis
    by (intro conjI c1 c3 read_loop_whole)
qed

theorem decoder_fragment_independence_witness:
  "events_passed example_platform [example_stream]
     = [chunk_event (JStr (js ''hi'')), complete_event]
   \<and> events_passed example_platform
         [take 9 example_stream, [], take 40 (drop 9 example_stream), drop 40 (drop 9 example_stream)]
     = [chunk_event (JStr (js ''hi'')), complete_event]"
proof -
  have w: "events_passed example_platform [example_stream]
     = [chunk_event (JStr (js ''hi'')), complete_event]"
    by (simp add: loop_eval)
  have c: "concat [take 9 example_stream, [], take 40 (drop 9 example_stream),
      drop 40 (drop 9 example_stream)] = example_stream"
    by (simp only: concat.simps append_Nil append_Nil2 append_take_drop_id)
  show ?thesis
    using decoder_fragment_independence
      [of example_platform "[take 9 example_stream, [], take 40 (drop 9 example_stream),
          drop 40 (drop 9 example_stream)]"]
    by (simp only: c w)
qed

section \<open>Failed sends (C2)\<close>

lemma streaming_inv_console [simp]:
  "streaming_inv a txt cs (console_log l s) = streaming_inv a txt cs s"
  by (simp add: streaming_inv_def console_log_def)

lemma settled_inv_console [simp]:
  "settled_inv cs (console_log l s) = settled_inv cs s"
  by (simp add: settled_inv_def console_log_def)

lemma chunk_keeps_streaming:
  assumes "streaming_inv a txt cs s" and "truthy t"
  shows "\<exists>s1. handle_chunk t s = Return s1 \<and> streaming_inv a (txt @ ToString t) cs s1"
  using assms
  by (auto simp: streaming_inv_def handle_chunk_def show_streaming_text_def append_chunk_text_def
        smartScrollToBottom_def scrollToBottom_def set_scrollTop_def update_el_def Let_def)

lemma nonterminal_keeps_streaming:
  assumes "streaming_inv a txt cs s" and "\<not> is_terminal ev"
  shows "streaming_inv a (txt @ event_text ev) cs
           (case handleStreamingEvent ev s of
              Return s1 \<Rightarrow> s1
            | Throw e s1 \<Rightarrow> console_log l s1)"
proof (cases ev)
  case EventNull
  then show ?thesis using assms by (simp add: handleStreamingEvent.simps)
next
  case (EventObj ty t e)
  show ?thesis
  proof (cases "ty = JStr (js ''chunk'')")
    case True
    show ?thesis
    proof (cases "truthy t")
      case True
      then show ?thesis
        using chunk_keeps_streaming [OF assms(1) True] EventObj \<open>ty = JStr (js ''chunk'')\<close>
        by auto
    next
      case False
      then show ?thesis
        using assms(1) EventObj \<open>ty = JStr (js ''chunk'')\<close> by (simp add: handle_chunk_def)
    qed
  next
    case False
    then show ?thesis
      using assms EventObj by (simp add: handleStreamingEvent.simps)
  qed
qed

lemma record_event_cases:
  "record_event parse line [] = [] \<or> (\<exists>ev. record_event parse line [] = [ev])"
  by (auto simp: record_event_def split: option.splits)

lemma record_event_append:
  "record_event parse line evs = evs @ record_event parse line []"
  by (simp add: record_event_def split: option.splits)

lemma fold_record_event:
  "fold (record_event parse) lines evs = evs @ fold (record_event parse) lines []"
proof (induction lines arbitrary: evs)
  case Nil
  then show ?case by simp
next
  case (Cons l ls)
  show ?case
    using Cons.IH [of "record_event parse l evs"] Cons.IH [of "record_event parse l []"]
      record_event_append [of parse l evs]
    by simp
qed

lemma fold_record_event_Cons:
  "fold (record_event parse) (l # ls) [] =
     record_event parse l [] @ fold (record_event parse) ls []"
  using fold_record_event [of parse ls "record_event parse l []"] by simp

lemma process_line_no_event:
  "record_event parse line [] = [] \<Longrightarrow>
     process_line parse line s = s
     \<or> process_line parse line s = console_log (ConsoleError (js ''Error parsing SSE data:'')) s"
  by (auto simp: record_event_def process_line_def split: option.splits if_splits)

lemma process_line_event:
  "record_event parse line [] = [ev] \<Longrightarrow>
     process_line parse line s =
       (case handleStreamingEvent ev s of
          Return s1 \<Rightarrow> s1
        | Throw e s1 \<Rightarrow> console_log (ConsoleError (js ''Error parsing SSE data:'')) s1)"
  by (auto simp: record_event_def process_line_def split: option.splits if_splits)

lemma line_keeps_streaming:
  assumes "streaming_inv a txt cs s" and "\<not> list_ex is_terminal (record_event parse line [])"
  shows "streaming_inv a (txt @ streamed_text (record_event parse line [])) cs
           (process_line parse line s)"
  using record_event_cases [of parse line]
proof
  assume n: "record_event parse line [] = []"
  show ?thesis
    using process_line_no_event [OF n, of s] assms(1) by (auto simp: n streamed_text_def)
next
  assume "\<exists>ev. record_event parse line [] = [ev]"
  then obtain ev where ev: "record_event parse line [] = [ev]" ..
  then have "\<not> is_terminal ev" using assms(2) by simp
  from nonterminal_keeps_streaming [OF assms(1) this]
  show ?thesis by (simp add: process_line_event [OF ev] ev streamed_text_def)
qed

lemma lines_keep_streaming:
  assumes "streaming_inv a acc cs s"
      and "\<not> list_ex is_terminal (fold (record_event parse) lines [])"
  shows "streaming_inv a (acc @ streamed_text (fold (record_event parse) lines [])) cs
           (fold (process_line parse) lines s)"
  using assms
proof (induction lines arbitrary: s acc)
  case Nil
  then show ?case by (simp add: streamed_text_def)
next
  case (Cons l ls)
  have nt: "\<not> list_ex is_terminal (record_event parse l [])"
    "\<not> list_ex is_terminal (fold (record_event parse) ls [])"
    using Cons.prems(2) unfolding fold_record_event_Cons by simp_all
  from Cons.IH [OF line_keeps_streaming [OF Cons.prems(1) nt(1)] nt(2)]
  show ?case unfolding fold_record_event_Cons by (simp add: streamed_text_def)
qed

lemma lines_keep_settled:
  assumes "settled_inv cs s" and "fold (record_event parse) lines [] = []"
  shows "settled_inv cs (fold (process_line parse) lines s)"
  using assms
proof (induction lines arbitrary: s)
  case Nil
  then show ?case by simp
next
  case (Cons l ls)
  have n: "record_event parse l [] = []" "fold (record_event parse) ls [] = []"
    using Cons.prems(2) unfolding fold_record_event_Cons by simp_all
  have "settled_inv cs (process_line parse l s)"
    using process_line_no_event [OF n(1), of s] Cons.prems(1) by auto
  from Cons.IH [OF this n(2)] show ?case by simp
qed

lemma first_stream_None_notin: "first_stream cs = None \<Longrightarrow> Stream a \<notin> set cs"
  by (induction cs rule: first_stream.induct) auto

lemma error_event_settles:
  assumes "streaming_inv a acc cs s" and "acc \<noteq> []"
  shows "\<exists>s1. handleStreamingEvent (EventObj (JStr (js ''error'')) t e) s = Return s1
           \<and> settled_inv (cs @ [Message RoleAssistant acc,
                 Message RoleError ([0x30A8, 0x30E9, 0x30FC, 0x3A, 0x20] @ ToString e)]) s1"
proof -
  have a: "streamingResponse s = Some a" "children s = cs @ Stream a # []"
    "Stream a \<notin> set cs" "streamingText s = Some a" "textContent (store s a) \<noteq> []"
    "textContent (store s a) = acc"
    using assms first_stream_None_notin [of cs a] by (simp_all add: streaming_inv_def)
  from error_event_promotes [OF a(1-5), of t e] a(6)
  show ?thesis by (auto simp: settled_inv_def)
qed

lemma error_line_settles:
  assumes "streaming_inv a acc cs s"
      and "fold (record_event parse) lines [] = evs @ [EventObj (JStr (js ''error'')) t e]"
      and "\<not> list_ex is_terminal evs"
      and "acc @ streamed_text evs \<noteq> []"
  shows "settled_inv (cs @ [Message RoleAssistant (acc @ streamed_text evs),
             Message RoleError ([0x30A8, 0x30E9, 0x30FC, 0x3A, 0x20] @ ToString e)])
           (fold (process_line parse) lines s)"
  using assms
proof (induction lines arbitrary: s acc evs)
  case Nil
  then show ?case by simp
next
  case (Cons l ls)
  let ?err = "EventObj (JStr (js ''error'')) t e"
  have f: "record_event parse l [] @ fold (record_event parse) ls [] = evs @ [?err]"
    using Cons.prems(2) unfolding fold_record_event_Cons .
  from record_event_cases [of parse l] show ?case
  proof
    assume n: "record_event parse l [] = []"
    have "streaming_inv a acc cs (process_line parse l s)"
      using process_line_no_event [OF n, of s] Cons.prems(1) by auto
    from Cons.IH [OF this _ Cons.prems(3,4)] f n show ?thesis by simp
  next
    assume "\<exists>ev. record_event parse l [] = [ev]"
    then obtain ev where ev: "record_event parse l [] = [ev]" ..
    show ?thesis
    proof (cases evs)
      case Nil
      then have e1: "ev = ?err" and e2: "fold (record_event parse) ls [] = []"
        using f ev by simp_all
      have "acc \<noteq> []" using Cons.prems(4) Nil by (simp add: streamed_text_def)
      from error_event_settles [OF Cons.prems(1) this, of t e]
      obtain s1 where s1: "handleStreamingEvent ?err s = Return s1"
        and st: "settled_inv (cs @ [Message RoleAssistant acc,
             Message RoleError ([0x30A8, 0x30E9, 0x30FC, 0x3A, 0x20] @ ToString e)]) s1"
        by blast
      have "process_line parse l s = s1"
        using process_line_event [OF ev, of s] s1 e1 by simp
      with lines_keep_settled [OF st e2] show ?thesis
        using Nil by (simp add: streamed_text_def)
    next
      case (Cons ev' evs')
      then have e1: "ev' = ev" and e2: "fold (record_event parse) ls [] = evs' @ [?err]"
        using f ev by simp_all
      have nt: "\<not> list_ex is_terminal (record_event parse l [])" "\<not> list_ex is_terminal evs'"
        using Cons.prems(3) Cons e1 ev by simp_all
      have st: "streaming_inv a (acc @ event_text ev) cs (process_line parse l s)"
        using line_keeps_streaming [OF Cons.prems(1) nt(1)] ev by (simp add: streamed_text_def)
      have ne: "(acc @ event_text ev) @ streamed_text evs' \<noteq> []"
        using Cons.prems(4) Cons e1 by (simp add: streamed_text_def)
      from Cons.IH [OF st e2 nt(2) ne] show ?thesis
        using Cons e1 by (simp add: streamed_text_def)
    qed
  qed
qed

lemma first_stream_append_message:
  "first_stream (cs @ [Message r c]) = first_stream cs"
  by (induction cs rule: first_stream.induct) simp_all

lemma startStreaming_inv:
  assumes "first_stream (children s) = None"
  shows "streaming_inv (next_addr s) [] (children s) (startStreaming s)"
  using assms
  by (simp add: streaming_inv_def startStreaming_def dom_defs first_stream_append
        new_streaming_el_def Let_def)

lemma streaming_failure_finish:
  assumes "streaming_inv a acc cs s" and "acc \<noteq> []"
  shows "\<exists>s1. finally_send (catch_send_error message s) = Return s1
           \<and> children s1 = cs @ [Message RoleAssistant acc,
                 Message RoleError
                   ([0x30E1, 0x30C3, 0x30BB, 0x30FC, 0x30B8, 0x9001, 0x4FE1, 0x30A8, 0x30E9,
                     0x30FC, 0x3A, 0x20] @ message)]
           \<and> \<not> input_disabled s1 \<and> \<not> send_disabled s1 \<and> \<not> isStreaming s1"
proof -
  let ?s = "setInputDisabled False (catch_send_error message s)"
  let ?e = "Message RoleError
                   ([0x30E1, 0x30C3, 0x30BB, 0x30FC, 0x30B8, 0x9001, 0x4FE1, 0x30A8, 0x30E9,
                     0x30FC, 0x3A, 0x20] @ message)"
  have a: "streamingResponse ?s = Some a" "children ?s = cs @ Stream a # [?e]"
    "Stream a \<notin> set cs" "streamingText ?s = Some a" "textContent (store ?s a) = acc"
    "isStreaming ?s" "\<not> input_disabled ?s" "\<not> send_disabled ?s"
    using assms(1) first_stream_None_notin [of cs a]
    by (simp_all add: streaming_inv_def catch_send_error_def setInputDisabled_def dom_defs)
  from completeStreaming_promotes [OF a(1-4)] a(5) assms(2)
  obtain s1 where s1: "completeStreaming ?s = Return s1"
    "children s1 = cs @ Message RoleAssistant acc # [?e]" "\<not> isStreaming s1"
    by auto
  have "input_disabled s1 = input_disabled ?s \<and> send_disabled s1 = send_disabled ?s"
    using s1(1)
    by (auto simp: completeStreaming_def replaceChild_def scrollToBottom_def set_scrollTop_def
          update_el_def Let_def split: option.splits if_splits)
  then show ?thesis
    using s1 a(6-8) by (simp add: finally_send_def getIsStreaming_def Let_def)
qed

lemma settled_finish:
  assumes "settled_inv cs s"
  shows "\<exists>s1. finally_send s = Return s1 \<and> children s1 = cs
           \<and> \<not> input_disabled s1 \<and> \<not> send_disabled s1 \<and> \<not> isStreaming s1"
  using assms
  by (simp add: settled_inv_def finally_send_def getIsStreaming_def setInputDisabled_def Let_def)

text \<open>An ok response without a body never starts streaming: the send ends with the
  user's message and the error message for the TypeError.\<close>

lemma send_without_body:
  assumes "getCurrentMessage s \<noteq> []" and "ok r" and "\<not> body_present r"
      and "\<not> isStreaming s"
  shows "\<exists>s1. handleFormSubmit P (Fulfilled r) s = Return s1
           \<and> children s1 = children s
                 @ [Message RoleUser (getCurrentMessage s),
                    Message RoleError
                      ([0x30E1, 0x30C3, 0x30BB, 0x30FC, 0x30B8, 0x9001, 0x4FE1, 0x30A8,
                        0x30E9, 0x30FC, 0x3A, 0x20] @ getReader_null_message P)]
           \<and> \<not> input_disabled s1 \<and> \<not> isStreaming s1"
  using assms
  by (simp add: handleFormSubmit_def catch_send_error_def finally_send_def getIsStreaming_def
        setInputDisabled_def issue_def clearInputAndMaintainFocus_def dom_defs Let_def)

text \<open>
  C2, as the code has it. Take a send of a non-empty message on a page whose
  transcript holds no streaming response (none is left over from an earlier send),
  answered with an ok status and a body, in which text has been streamed and no
  terminal event has been handled before the failure. If the body then fails (a
  rejected read), or if an \<open>error\<close> event arrives, nothing is handled after it and the
  body ends, the send returns; the transcript has gained the user's message, then a committed
  assistant message with the text streamed so far (the pending entry is promoted,
  not discarded), then exactly one error message; the input control is enabled
  again and nothing streams.
\<close>

theorem failed_send_keeps_partial_reply:
  assumes "getCurrentMessage s = m" and "m \<noteq> []" and "first_stream (children s) = None"
      and "ok r" and "body_present r"
  shows "(read_failure r = Some message
            \<and> \<not> list_ex is_terminal (events_passed P (fragments r))
            \<and> streamed_text (events_passed P (fragments r)) \<noteq> [] \<longrightarrow>
          (\<exists>s1. handleFormSubmit P (Fulfilled r) s = Return s1
             \<and> children s1 = children s
                   @ [Message RoleUser m,
                      Message RoleAssistant (streamed_text (events_passed P (fragments r))),
                      Message RoleError
                        ([0x30E1, 0x30C3, 0x30BB, 0x30FC, 0x30B8, 0x9001, 0x4FE1, 0x30A8,
                          0x30E9, 0x30FC, 0x3A, 0x20] @ message)]
             \<and> \<not> input_disabled s1 \<and> \<not> send_disabled s1 \<and> \<not> isStreaming s1))
       \<and> (read_failure r = None
            \<and> events_passed P (fragments r) = evs @ [EventObj (JStr (js ''error'')) t e]
            \<and> \<not> list_ex is_terminal evs \<and> streamed_text evs \<noteq> [] \<longrightarrow>
          (\<exists>s1. handleFormSubmit P (Fulfilled r) s = Return s1
             \<and> children s1 = children s
                   @ [Message RoleUser m,
                      Message RoleAssistant (streamed_text evs),
                      Message RoleError ([0x30A8, 0x30E9, 0x30FC, 0x3A, 0x20] @ ToString e)]
             \<and> \<not> input_disabled s1 \<and> \<not> send_disabled s1 \<and> \<not> isStreaming s1))"
proof -
  define s4 where "s4 = issue (Send m (if getCurrentSessionId
        (clearInputAndMaintainFocus (addUserMessage m (setInputDisabled True s))) = Some []
      then None
      else getCurrentSessionId
        (clearInputAndMaintainFocus (addUserMessage m (setInputDisabled True s)))))
      (clearInputAndMaintainFocus (addUserMessage m (setInputDisabled True s)))"
  define ls where "ls = butlast (split_nl (fst (decode (decoder_step P) (decoder_init P)
      (concat (fragments r)))))"
  define s6 where "s6 = read_loop (process_line (JSON_parse P)) (decoder_step P)
      (decoder_init P) [] (fragments r) (startStreaming s4)"
  have c4: "children s4 = children s @ [Message RoleUser m]"
    by (simp add: s4_def issue_def clearInputAndMaintainFocus_def setInputDisabled_def dom_defs)
  have inv0: "streaming_inv (next_addr s4) [] (children s @ [Message RoleUser m])
      (startStreaming s4)"
    using startStreaming_inv [of s4] assms(3) c4
    by (simp add: first_stream_append_message)
  have s6: "s6 = fold (process_line (JSON_parse P)) ls (startStreaming s4)"
    unfolding s6_def ls_def using read_loop_fold [of "[]"] by simp
  have evs: "events_passed P (fragments r) = fold (record_event (JSON_parse P)) ls []"
    unfolding events_passed_def ls_def using read_loop_fold [of "[]"] by simp
  have run: "handleFormSubmit P (Fulfilled r) s =
      finally_send (case read_failure r of None \<Rightarrow> s6 | Some x \<Rightarrow> catch_send_error x s6)"
  proof -
    have m: "m = getCurrentMessage s" and ne: "getCurrentMessage s \<noteq> []"
      using assms(1,2) by simp_all
    show ?thesis
      unfolding handleFormSubmit_def s6_def s4_def Let_def m using ne assms(4,5) by simp
  qed
  have A: ?thesis if "read_failure r = Some message"
      "\<not> list_ex is_terminal (events_passed P (fragments r))"
      "streamed_text (events_passed P (fragments r)) \<noteq> []"
  proof -
    from lines_keep_streaming [OF inv0, of "JSON_parse P" ls] that(2)
    have "streaming_inv (next_addr s4) (streamed_text (events_passed P (fragments r)))
        (children s @ [Message RoleUser m]) s6"
      by (simp add: evs s6)
    from streaming_failure_finish [OF this that(3), of message]
    show ?thesis using that(1) by (simp add: run)
  qed
  have B: ?thesis if "read_failure r = None"
      "events_passed P (fragments r) = evs @ [EventObj (JStr (js ''error'')) t e]"
      "\<not> list_ex is_terminal evs" "streamed_text evs \<noteq> []"
  proof -
    from error_line_settles [OF inv0, of "JSON_parse P" ls evs t e] that(2-4)
    have "settled_inv ((children s @ [Message RoleUser m])
        @ [Message RoleAssistant (streamed_text evs),
           Message RoleError ([0x30A8, 0x30E9, 0x30FC, 0x3A, 0x20] @ ToString e)]) s6"
      by (simp add: evs s6)
    from settled_finish [OF this]
    show ?thesis using that(1) by (simp add: run)
  qed
  show ?thesis using A B by blast
qed

lemma example_sent_eval:
  "example_sent =
     \<lparr>children = [Message RoleUser (js ''hello''), Stream 0],
      store = (\<lambda>a. new_streaming_el), next_addr = Suc 0, layout = example_layout,
      scrollTop = 100, clientHeight = 100,
      streamingResponse = Some 0, streamingText = Some 0, typingIndicator = Some 0,
      thinkingIndicator = Some 0, isStreaming = True,
      sessionId = None, isNewSessionJustCreated = False, localStorage = None,
      input_value = [], input_disabled = True, send_disabled = True,
      requests = [Send (js ''hello'') None], console = [], timers = [],
      location_login = False\<rparr>"
  by (simp add: example_sent_def example_idle_def setInputDisabled_def
        clearInputAndMaintainFocus_def issue_def example_defs dom_defs streaming_defs Let_def
        fun_upd_idem)

lemma example_send_start:
  assumes "ok r" and "body_present r"
  shows "handleFormSubmit example_platform (Fulfilled r) example_idle =
     finally_send
       (case read_failure r of
          None \<Rightarrow> fold (process_line example_parse)
                    (butlast (split_nl (fst (decode (\<lambda>d b. ([ucast b], d)) ()
                       (concat (fragments r)))))) example_sent
        | Some x \<Rightarrow> catch_send_error x
                    (fold (process_line example_parse)
                       (butlast (split_nl (fst (decode (\<lambda>d b. ([ucast b], d)) ()
                          (concat (fragments r)))))) example_sent))"
proof -
  have m: "getCurrentMessage example_idle = js ''hello''"
    by (simp add: getCurrentMessage_def example_idle_def init_page_def trim_def
          is_whitespace_def js_def)
  have s: "getCurrentSessionId (clearInputAndMaintainFocus (addUserMessage (js ''hello'')
      (setInputDisabled True example_idle))) = None"
    by (simp add: getCurrentSessionId_def clearInputAndMaintainFocus_def setInputDisabled_def
          example_idle_def init_page_def dom_defs)
  have n: "js ''hello'' \<noteq> []" by (simp add: js_def)
  show ?thesis
    unfolding handleFormSubmit_def Let_def m s example_sent_def
    using assms n
    by (simp add: example_platform_def read_loop_fold [of "[]", simplified]
          del: read_loop.simps split: option.split)
qed

lemma example_lines:
  \<open>butlast (split_nl (fst (decode (\<lambda>d b. ([ucast b], d)) ()
      (concat (fragments example_failed_response)))))
    = [js ''data: {"event_type":"chunk","text":"hi"}'']\<close>
  \<open>butlast (split_nl (fst (decode (\<lambda>d b. ([ucast b], d)) ()
      (concat (fragments example_error_response)))))
    = [js ''data: {"event_type":"chunk","text":"hi"}'',
       js ''data: {"event_type":"error","error":"overloaded"}'']\<close>
  by (simp_all add: example_failed_response_def example_error_response_def utf8_def js_def)

lemma example_sent_chunk:
  \<open>process_line example_parse (js ''data: {"event_type":"chunk","text":"hi"}'') example_sent
    = example_sent\<lparr>store := (\<lambda>a. new_streaming_el)
        (0 := \<lparr>thinking_hidden = True, streaming_text_hidden = False, typing_hidden = False,
               typing_display_none = False, textContent = js ''hi''\<rparr>)\<rparr>\<close>
  by (simp add: example_sent_eval eval_defs)

lemma example_ok: "ok example_failed_response" "ok example_error_response"
  "body_present example_failed_response" "body_present example_error_response"
  by (simp_all add: ok_def example_failed_response_def example_error_response_def)

lemma example_failed_send:
  "handleFormSubmit example_platform (Fulfilled example_failed_response) example_idle
     = Return example_failed_final"
proof -
  have r: "read_failure example_failed_response = Some (js ''network error'')"
    by (simp add: example_failed_response_def)
  show ?thesis
    unfolding example_send_start [OF example_ok(1,3)] example_lines r
    by (simp add: example_sent_chunk)
       (simp add: example_failed_final_def example_sent_eval catch_send_error_def
          finally_send_def getIsStreaming_def setInputDisabled_def eval_defs)
qed

lemma example_error_send:
  "handleFormSubmit example_platform (Fulfilled example_error_response) example_idle
     = Return example_error_final"
proof -
  have r: "read_failure example_error_response = None"
    by (simp add: example_error_response_def)
  show ?thesis
    unfolding example_send_start [OF example_ok(2,4)] example_lines r
    by (simp add: example_sent_chunk)
       (simp add: example_error_final_def example_sent_eval
          finally_send_def getIsStreaming_def setInputDisabled_def eval_defs)
qed

text \<open>
  C2 as stated fails: after \<open>chunk "hi"\<close> both a failing body and an \<open>error\<close> event
  leave the assistant message \<open>hi\<close> in the transcript, before the error message.
\<close>

theorem failed_send_keeps_partial_reply_counterexample:
  "handleFormSubmit example_platform (Fulfilled example_failed_response) example_idle
     = Return example_failed_final
   \<and> transcript example_failed_final
     = [Committed RoleUser (js ''hello''), Committed RoleAssistant (js ''hi''),
        Committed RoleError
          ([0x30E1, 0x30C3, 0x30BB, 0x30FC, 0x30B8, 0x9001, 0x4FE1, 0x30A8, 0x30E9, 0x30FC,
            0x3A, 0x20] @ js ''network error'')]
   \<and> handleFormSubmit example_platform (Fulfilled example_error_response) example_idle
     = Return example_error_final
   \<and> transcript example_error_final
     = [Committed RoleUser (js ''hello''), Committed RoleAssistant (js ''hi''),
        Committed RoleError ([0x30A8, 0x30E9, 0x30FC, 0x3A, 0x20] @ js ''overloaded'')]"
  by (simp add: example_failed_send example_error_send)
     (simp add: example_failed_final_def example_error_final_def transcript_def)

theorem failed_send_keeps_partial_reply_witness:
  "(\<exists>s1. handleFormSubmit example_platform (Fulfilled example_failed_response) example_idle
            = Return s1
         \<and> children s1
            = [Message RoleUser (js ''hello''), Message RoleAssistant (js ''hi''),
               Message RoleError
                 ([0x30E1, 0x30C3, 0x30BB, 0x30FC, 0x30B8, 0x9001, 0x4FE1, 0x30A8, 0x30E9,
                   0x30FC, 0x3A, 0x20] @ js ''network error'')]
         \<and> \<not> input_disabled s1 \<and> \<not> send_disabled s1 \<and> \<not> isStreaming s1)
   \<and> (\<exists>s1. handleFormSubmit example_platform (Fulfilled example_error_response) example_idle
            = Return s1
         \<and> children s1
            = [Message RoleUser (js ''hello''), Message RoleAssistant (js ''hi''),
               Message RoleError ([0x30A8, 0x30E9, 0x30FC, 0x3A, 0x20] @ js ''overloaded'')]
         \<and> \<not> input_disabled s1 \<and> \<not> send_disabled s1 \<and> \<not> isStreaming s1)"
proof -
  have m: "getCurrentMessage example_idle = js ''hello''" "js ''hello'' \<noteq> []"
    "first_stream (children example_idle) = None" "children example_idle = []"
    by (simp_all add: getCurrentMessage_def example_idle_def init_page_def trim_def
          is_whitespace_def js_def)
  have e1: "events_passed example_platform (fragments example_failed_response)
      = [chunk_event (JStr (js ''hi''))]"
    by (simp add: example_failed_response_def loop_eval)
  have e2: "events_passed example_platform (fragments example_error_response)
      = [chunk_event (JStr (js ''hi''))] @ [EventObj (JStr (js ''error'')) JUndefined
           (JStr (js ''overloaded''))]"
    by (simp add: example_error_response_def loop_eval)
  have t: "\<not> list_ex is_terminal [chunk_event (JStr (js ''hi''))]"
    "streamed_text [chunk_event (JStr (js ''hi''))] = js ''hi''" "js ''hi'' \<noteq> []"
    by (simp_all add: chunk_event_def streamed_text_def js_def)
  have r: "read_failure example_failed_response = Some (js ''network error'')"
    "read_failure example_error_response = None"
    by (simp_all add: example_failed_response_def example_error_response_def)
  from failed_send_keeps_partial_reply [OF m(1-3) example_ok(1,3),
      of "js ''network error''" example_platform]
  have a: "\<exists>s1. handleFormSubmit example_platform (Fulfilled example_failed_response)
            example_idle = Return s1
         \<and> children s1
            = [Message RoleUser (js ''hello''), Message RoleAssistant (js ''hi''),
               Message RoleError
                 ([0x30E1, 0x30C3, 0x30BB, 0x30FC, 0x30B8, 0x9001, 0x4FE1, 0x30A8, 0x30E9,
                   0x30FC, 0x3A, 0x20] @ js ''network error'')]
         \<and> \<not> input_disabled s1 \<and> \<not> send_disabled s1 \<and> \<not> isStreaming s1"
    using r(1) t by (simp add: e1 m(4))
  from failed_send_keeps_partial_reply [OF m(1-3) example_ok(2,4),
      of _ example_platform "[chunk_event (JStr (js ''hi''))]" JUndefined
         "JStr (js ''overloaded'')"]
  have b: "\<exists>s1. handleFormSubmit example_platform (Fulfilled example_error_response)
            example_idle = Return s1
         \<and> children s1
            = [Message RoleUser (js ''hello''), Message RoleAssistant (js ''hi''),
               Message RoleError ([0x30A8, 0x30E9, 0x30FC, 0x3A, 0x20] @ js ''overloaded'')]
         \<and> \<not> input_disabled s1 \<and> \<not> send_disabled s1 \<and> \<not> isStreaming s1"
    using r(2) t e2 by (simp add: m(4))
  show ?thesis using a b by blast
qed

section \<open>Empty input (C9)\<close>

text \<open>
  C9. When the input is empty or holds white space only, which by
  \<open>trim_empty_iff\<close> is exactly when its trimmed text is empty, \<open>handleFormSubmit\<close>
  returns with the page as it was: no request is issued, the transcript and the
  disabled state of the input are untouched.
\<close>

theorem empty_input_rejected:
  "list_all is_whitespace (input_value s) \<Longrightarrow>
     getCurrentMessage s = [] \<and> handleFormSubmit P fetch_result s = Return s"
  by (simp add: handleFormSubmit_def getCurrentMessage_def trim_empty_iff)

theorem empty_input_rejected_witness:
  "handleFormSubmit example_platform (Rejected [])
       (example_page\<lparr>input_value := [0x20, 0x9, 0x3000, 0xA]\<rparr>)
     = Return (example_page\<lparr>input_value := [0x20, 0x9, 0x3000, 0xA]\<rparr>)
   \<and> handleFormSubmit example_platform (Fulfilled example_failed_response)
       (example_page\<lparr>input_value := []\<rparr>)
     = Return (example_page\<lparr>input_value := []\<rparr>)"
  using empty_input_rejected
    [of "example_page\<lparr>input_value := [0x20, 0x9, 0x3000, 0xA]\<rparr>" example_platform
        "Rejected []"]
    empty_input_rejected
    [of "example_page\<lparr>input_value := []\<rparr>" example_platform
        "Fulfilled example_failed_response"]
  by (simp add: is_whitespace_def)

section \<open>Chunks without text (C10)\<close>

text \<open>
  C10. A \<open>chunk\<close> event whose \<open>text\<close> is absent, empty or otherwise falsy leaves
  the page exactly as it was: no streaming response is started, no text is
  appended, the streaming flag and the scroll position are unchanged.
\<close>

theorem chunk_falsy_text_noop:
  "\<not> truthy t \<Longrightarrow> handleStreamingEvent (EventObj (JStr (js ''chunk'')) t err) s = Return s"
  by (simp add: handle_chunk_def)

theorem chunk_falsy_text_noop_witness:
  "handleStreamingEvent (EventObj (JStr (js ''chunk'')) (JStr []) JUndefined) example_page
     = Return example_page
   \<and> handleStreamingEvent (EventObj (JStr (js ''chunk'')) JUndefined JUndefined) example_page
     = Return example_page
   \<and> handleStreamingEvent (EventObj (JStr (js ''chunk'')) (JOther False (js ''0'')) JNull)
       (init_page example_layout 100)
     = Return (init_page example_layout 100)"
  using chunk_falsy_text_noop [of "JStr []" JUndefined example_page]
    chunk_falsy_text_noop [of JUndefined JUndefined example_page]
    chunk_falsy_text_noop [of "JOther False (js ''0'')" JNull "init_page example_layout 100"]
  by simp

section \<open>Session reset (C8)\<close>

text \<open>
  C8. \<open>resetChatSession\<close> removes the persisted session id however the
  notification of the server settles. When the \<open>fetch\<close> is rejected the failure is
  caught and logged as a warning, and the id stays removed. The notification is
  issued in both cases.
\<close>

theorem reset_removes_persisted_id:
  "localStorage (resetChatSession fetch_result s) = None
   \<and> localStorage (resetChatSession (Rejected e) s) = None
   \<and> console (resetChatSession (Rejected e) s)
       = console s @ [ConsoleWarn (js ''Failed to clear session on server:'')]
   \<and> requests (resetChatSession fetch_result s) = requests s @ [ClearSession]"
  by (cases fetch_result) (simp_all add: resetChatSession_def console_log_def Let_def)

end
